theory Spec2Isabelle
  imports Main "HOL-Library.Sublist"
begin

section \<open>JavaScript strings\<close>

text \<open>
  Strings are lists of characters. \<open>String.prototype.slice(start, end)\<close> counts a negative
  index from the end of the string and clamps both indices to the string; when the
  start is not before the end the result is empty.
\<close>

definition clamp_index :: "string \<Rightarrow> int \<Rightarrow> nat" where
  "clamp_index s i =
     (let len = int (length s)
      in nat (if i < 0 then max (len + i) 0 else min i len))"

definition slice :: "string \<Rightarrow> int \<Rightarrow> int \<Rightarrow> string" where
  "slice s start fin = take (clamp_index s fin - clamp_index s start) (drop (clamp_index s start) s)"

text \<open>\<open>slice(start)\<close> with the end left out runs to the end of the string.\<close>

definition slice_from :: "string \<Rightarrow> int \<Rightarrow> string" where
  "slice_from s start = slice s start (int (length s))"

text \<open>\<open>s.charAt(0) === c\<close>: the empty string has no first character.\<close>

fun charAt0_is :: "string \<Rightarrow> char \<Rightarrow> bool" where
  "charAt0_is [] c = False"
| "charAt0_is (x # xs) c = (x = c)"

text \<open>\<open>a.indexOf(b) === 0\<close> holds exactly when \<open>b\<close> is a prefix of \<open>a\<close>.\<close>

definition indexOf_is_0 :: "string \<Rightarrow> string \<Rightarrow> bool" where
  "indexOf_is_0 a b = prefix b a"

text \<open>Characters that a string literal cannot hold directly.\<close>

definition quote :: char where "quote = CHR 0x27"
definition dquote :: char where "dquote = CHR 0x22"
definition backslash :: char where "backslash = CHR 0x5C"
definition newline :: char where "newline = CHR 0x0A"
definition tab :: char where "tab = CHR 0x09"

text \<open>A number inside a template literal is printed in decimal.\<close>

definition digit_char :: "nat \<Rightarrow> char" where
  "digit_char d =
     (if d = 0 then CHR ''0'' else if d = 1 then CHR ''1'' else if d = 2 then CHR ''2''
      else if d = 3 then CHR ''3'' else if d = 4 then CHR ''4'' else if d = 5 then CHR ''5''
      else if d = 6 then CHR ''6'' else if d = 7 then CHR ''7'' else if d = 8 then CHR ''8''
      else CHR ''9'')"

fun show_nat :: "nat \<Rightarrow> string" where
  "show_nat n = (if n < 10 then [digit_char n] else show_nat (n div 10) @ [digit_char (n mod 10)])"

declare show_nat.simps [simp del]


section \<open>Syntax trees and source files\<close>

text \<open>
  The compiler's syntax tree, as far as the bundler reads it: a node has a kind, the
  position \<open>pos\<close> where it starts (its leading trivia included), the position \<open>end\<close>
  where it stops (here \<open>endpos\<close>), the \<open>text\<close> of a literal (here \<open>literalText\<close>), the
  kind of its parent (\<open>node.parent.kind\<close>) and the children that \<open>ts.forEachChild\<close>
  enumerates, in that order. The kinds that the bundler tests have their names; every
  other kind is \<open>OtherKind\<close> with its number.
\<close>

datatype syntax_kind =
    SourceFileKind
  | ExternalModuleReference
  | DeclareKeyword
  | StringLiteral
  | ExportDeclaration
  | ImportDeclaration
  | OtherKind nat

datatype node =
  Node (kind: syntax_kind) (pos: nat) (endpos: nat) (literalText: string)
       (parentKind: syntax_kind) (children: "node list")

text \<open>
  A \<open>ts.SourceFile\<close>: its name, its full text, the external-module indicator (tested
  for truthiness only) and the file's own node, the root of the tree.
\<close>

record source_file =
  fileName :: string
  fileText :: string
  externalModuleIndicator :: bool
  tree :: node

lemma size_children [termination_simp]: "size_list size (children n) < size n"
  by (cases n) simp


section \<open>The source rewriter: processTree\<close>

text \<open>
  The state of the walk is the pair of the closure's two variables, \<open>code\<close> and
  \<open>cursorPosition\<close>. \<open>readThrough\<close> appends the text from the cursor up to the node's
  \<open>pos\<close> and moves the cursor there; \<open>skip\<close> moves the cursor to the node's \<open>end\<close>.
\<close>

definition skip :: "node \<Rightarrow> string \<times> nat \<Rightarrow> string \<times> nat" where
  "skip n st = (fst st, endpos n)"

definition readThrough :: "string \<Rightarrow> node \<Rightarrow> string \<times> nat \<Rightarrow> string \<times> nat" where
  "readThrough src n st = (fst st @ slice src (int (snd st)) (int (pos n)), pos n)"

fun visit :: "string \<Rightarrow> (node \<Rightarrow> string option) \<Rightarrow> node \<Rightarrow> string \<times> nat \<Rightarrow> string \<times> nat"
and forEachChild_visit ::
  "string \<Rightarrow> (node \<Rightarrow> string option) \<Rightarrow> node list \<Rightarrow> string \<times> nat \<Rightarrow> string \<times> nat"
where
  "visit src replacer n st =
     (let st1 = readThrough src n st
      in case replacer n of
           Some replacement \<Rightarrow> skip n (fst st1 @ replacement, snd st1)
         | None \<Rightarrow> forEachChild_visit src replacer (children n) st1)"
| "forEachChild_visit src replacer [] st = st"
| "forEachChild_visit src replacer (c # cs) st =
     forEachChild_visit src replacer cs (visit src replacer c st)"

definition processTree :: "source_file \<Rightarrow> (node \<Rightarrow> string option) \<Rightarrow> string" where
  "processTree sourceFile replacer =
     (let st = visit (fileText sourceFile) replacer (tree sourceFile) ([], 0)
      in fst st @ slice_from (fileText sourceFile) (int (snd st)))"

text \<open>
  What the parser guarantees about positions: a node lies inside its parent, it does
  not end before it starts, and siblings follow one another without overlap.
  \<open>wf_node lo hi n\<close> says so for the subtree of \<open>n\<close> inside the range from \<open>lo\<close> to \<open>hi\<close>.
\<close>

fun wf_node :: "nat \<Rightarrow> nat \<Rightarrow> node \<Rightarrow> bool"
and wf_nodes :: "nat \<Rightarrow> nat \<Rightarrow> node list \<Rightarrow> bool" where
  "wf_node lo hi n =
     (lo \<le> pos n \<and> pos n \<le> endpos n \<and> endpos n \<le> hi \<and> wf_nodes (pos n) (endpos n) (children n))"
| "wf_nodes lo hi [] = True"
| "wf_nodes lo hi (c # cs) = (wf_node lo hi c \<and> wf_nodes (endpos c) hi cs)"

definition wf_source_file :: "source_file \<Rightarrow> bool" where
  "wf_source_file sf = wf_node 0 (length (fileText sf)) (tree sf)"

text \<open>All nodes of a subtree, in the order of the walk.\<close>

fun subnodes :: "node \<Rightarrow> node list"
and subnodes_list :: "node list \<Rightarrow> node list" where
  "subnodes n = n # subnodes_list (children n)"
| "subnodes_list [] = []"
| "subnodes_list (c # cs) = subnodes c @ subnodes_list cs"

text \<open>
  The pieces an output is made of: a span of the source passed through, or a span of
  the source replaced by a substitution.
\<close>

datatype segment = Passed nat nat | Substituted nat nat string

fun seg_start :: "segment \<Rightarrow> nat" where
  "seg_start (Passed i j) = i"
| "seg_start (Substituted i j r) = i"

fun seg_end :: "segment \<Rightarrow> nat" where
  "seg_end (Passed i j) = j"
| "seg_end (Substituted i j r) = j"

fun render :: "string \<Rightarrow> segment \<Rightarrow> string" where
  "render src (Passed i j) = take (j - i) (drop i src)"
| "render src (Substituted i j r) = r"

text \<open>
  \<open>tiles a b segs\<close>: the spans of \<open>segs\<close> cover the range from \<open>a\<close> to \<open>b\<close> once, each
  span starting where the one before it stopped.
\<close>

fun tiles :: "nat \<Rightarrow> nat \<Rightarrow> segment list \<Rightarrow> bool" where
  "tiles a b [] = (a = b)"
| "tiles a b (s # ss) = (seg_start s = a \<and> seg_start s \<le> seg_end s \<and> tiles (seg_end s) b ss)"

text \<open>A substituted segment is the span of a node of the tree that the replacer answered for.\<close>

fun from_tree :: "(node \<Rightarrow> string option) \<Rightarrow> node list \<Rightarrow> segment \<Rightarrow> bool" where
  "from_tree replacer ns (Passed i j) = True"
| "from_tree replacer ns (Substituted i j r) =
     (\<exists>n \<in> set ns. pos n = i \<and> endpos n = j \<and> replacer n = Some r)"


section \<open>The host's path module\<close>

text \<open>
  \<open>pathUtil\<close> is the host's path module, which differs between hosts. The bundler uses
  its separator and four of its functions; they are the fields of \<open>path_util\<close>
  (\<open>pathUtil.sep\<close> is \<open>path_sep\<close>, and so on). \<open>resolve\<close> and \<open>join\<close> take their
  arguments as a list.
\<close>

record path_util =
  path_sep :: char
  path_resolve :: "string list \<Rightarrow> string"
  path_normalize :: "string \<Rightarrow> string"
  path_join :: "string list \<Rightarrow> string"
  path_dirname :: "string \<Rightarrow> string"

subsection \<open>The POSIX variant\<close>

text \<open>
  The module of a POSIX host, modelled after Node's \<open>path.posix\<close>, with the current
  working directory as a parameter. \<open>split_on c\<close> is \<open>split(c)\<close> and \<open>join_slash\<close> is
  \<open>join('/')\<close> on arrays.
\<close>

fun split_on :: "char \<Rightarrow> string \<Rightarrow> string list" where
  "split_on c [] = [[]]"
| "split_on c (x # xs) =
     (if x = c then [] # split_on c xs
      else (case split_on c xs of [] \<Rightarrow> [[x]] | p # ps \<Rightarrow> (x # p) # ps))"

fun join_slash :: "string list \<Rightarrow> string" where
  "join_slash [] = []"
| "join_slash [p] = p"
| "join_slash (p # q # ps) = p @ CHR ''/'' # join_slash (q # ps)"

fun normalizeArray_loop :: "bool \<Rightarrow> string list \<Rightarrow> string list \<Rightarrow> string list" where
  "normalizeArray_loop allowAboveRoot res [] = res"
| "normalizeArray_loop allowAboveRoot res (p # parts) =
     (if p = [] \<or> p = ''.'' then normalizeArray_loop allowAboveRoot res parts
      else if p = ''..'' then
        (if res \<noteq> [] \<and> last res \<noteq> ''..'' then normalizeArray_loop allowAboveRoot (butlast res) parts
         else if allowAboveRoot then normalizeArray_loop allowAboveRoot (res @ [''..'']) parts
         else normalizeArray_loop allowAboveRoot res parts)
      else normalizeArray_loop allowAboveRoot (res @ [p]) parts)"

definition normalizeArray :: "string list \<Rightarrow> bool \<Rightarrow> string list" where
  "normalizeArray parts allowAboveRoot = normalizeArray_loop allowAboveRoot [] parts"

definition posix_normalize :: "string \<Rightarrow> string" where
  "posix_normalize path =
     (let isAbsolute = charAt0_is path CHR ''/'';
          trailingSlash = (path \<noteq> [] \<and> last path = CHR ''/'');
          p = join_slash (normalizeArray (split_on CHR ''/'' path) (\<not> isAbsolute));
          p1 = (if p = [] \<and> \<not> isAbsolute then ''.'' else p);
          p2 = (if p1 \<noteq> [] \<and> trailingSlash then p1 @ ''/'' else p1)
      in (if isAbsolute then ''/'' else []) @ p2)"

definition posix_join :: "string list \<Rightarrow> string" where
  "posix_join segments = posix_normalize (join_slash (filter (\<lambda>segment. segment \<noteq> []) segments))"

text \<open>
  \<open>resolve\<close> reads its arguments from the last to the first, and the working directory
  after them, until the path collected so far is absolute.
\<close>

fun resolve_loop :: "string list \<Rightarrow> string \<Rightarrow> bool \<Rightarrow> string \<times> bool" where
  "resolve_loop [] resolvedPath resolvedAbsolute = (resolvedPath, resolvedAbsolute)"
| "resolve_loop (path # paths) resolvedPath resolvedAbsolute =
     (if resolvedAbsolute then (resolvedPath, resolvedAbsolute)
      else if path = [] then resolve_loop paths resolvedPath resolvedAbsolute
      else resolve_loop paths (path @ ''/'' @ resolvedPath) (charAt0_is path CHR ''/''))"

definition posix_resolve :: "string \<Rightarrow> string list \<Rightarrow> string" where
  "posix_resolve cwd args =
     (let r = resolve_loop (rev args @ [cwd]) [] False;
          p = join_slash (normalizeArray (split_on CHR ''/'' (fst r)) (\<not> snd r));
          res = (if snd r then ''/'' else []) @ p
      in if res = [] then ''.'' else res)"

text \<open>
  \<open>dirname\<close> scans from the last character down to the second one for the first slash
  after a character that is no slash.
\<close>

fun dirname_end :: "string \<Rightarrow> nat \<Rightarrow> bool \<Rightarrow> nat option" where
  "dirname_end path 0 matchedSlash = None"
| "dirname_end path (Suc i) matchedSlash =
     (if path ! Suc i = CHR ''/'' then
        (if \<not> matchedSlash then Some (Suc i) else dirname_end path i matchedSlash)
      else dirname_end path i False)"

definition posix_dirname :: "string \<Rightarrow> string" where
  "posix_dirname path =
     (if path = [] then ''.''
      else
        (let hasRoot = charAt0_is path CHR ''/''
         in case dirname_end path (length path - 1) True of
              None \<Rightarrow> (if hasRoot then ''/'' else ''.'')
            | Some e \<Rightarrow> (if hasRoot \<and> e = 1 then ''//'' else take e path)))"

definition posix_path :: "string \<Rightarrow> path_util" where
  "posix_path cwd =
     \<lparr>path_sep = CHR ''/'', path_resolve = posix_resolve cwd, path_normalize = posix_normalize,
      path_join = posix_join, path_dirname = posix_dirname\<rparr>"


section \<open>Module identifiers: filenameToMid\<close>

text \<open>
  The function depends on the host through \<open>pathUtil.sep\<close> only, its first argument
  here, which is the slash or the backslash. Where the separator is the slash it
  returns the file name; where it is the backslash it replaces every occurrence of the
  separator by a slash (the regular expression, built from the separator with its
  backslash escaped, matches exactly the backslash).
\<close>

definition filenameToMid :: "char \<Rightarrow> string \<Rightarrow> string" where
  "filenameToMid sep filename =
     (if sep = CHR ''/'' then filename
      else map (\<lambda>c. if c = sep then CHR ''/'' else c) filename)"

text \<open>The first two lines of \<open>writeDeclaration\<close>: the value of \<open>sourceModuleId\<close>.\<close>

definition sourceModuleId_of :: "char \<Rightarrow> string \<Rightarrow> string \<Rightarrow> string \<Rightarrow> string" where
  "sourceModuleId_of sep name baseDir filename =
     name @ filenameToMid sep (slice filename (int (length baseDir)) (- 5))"


section \<open>Diagnostics: getError\<close>

text \<open>
  A diagnostic as \<open>getError\<close> reads it. Its file may be absent. Of a file that is there,
  \<open>getError\<close> reads the name and the zero-based line and character that
  \<open>getLineAndCharacterOfPosition\<close> answers for the diagnostic's start. The message text
  is a string or a chain of messages, an object.
\<close>

record diagnostic_file =
  df_fileName :: string
  df_line :: nat
  df_character :: nat

datatype message_chain =
  DiagnosticMessageChain (chain_messageText: string) (chain_code: nat)
    (chain_next: "message_chain option")

datatype message_text = MessageString string | MessageChain message_chain

record diagnostic =
  diag_file :: "diagnostic_file option"
  diag_code :: nat
  diag_messageText :: message_text

text \<open>A value inside a template literal: a string is itself, an object is printed as such.\<close>

fun template_text :: "message_text \<Rightarrow> string" where
  "template_text (MessageString s) = s"
| "template_text (MessageChain c) = ''[object Object]''"

text \<open>
  The error that \<open>getError\<close> builds, and the exceptions that the engine raises: reading a
  property of what is not there is a \<open>TypeError\<close>, and a regular expression that does not
  compile is a \<open>SyntaxError\<close>.
\<close>

record js_error =
  err_name :: string
  err_message :: string

datatype exception = TypeError | SyntaxError

definition diagnostic_line :: "diagnostic_file \<Rightarrow> diagnostic \<Rightarrow> string" where
  "diagnostic_line file d =
     [newline] @ df_fileName file @ ''('' @ show_nat (df_line file + 1) @ '','' @
     show_nat (df_character file + 1) @ ''): '' @
     ''error TS'' @ show_nat (diag_code d) @ '': '' @ template_text (diag_messageText d)"

text \<open>
  The \<open>forEach\<close> of \<open>getError\<close>, with the message built so far: it raises at the first
  diagnostic without a file. \<open>getError\<close> answers \<open>Inl\<close> with the exception raised, or \<open>Inr\<close>
  with the error built.
\<close>

fun getError_forEach :: "string \<Rightarrow> diagnostic list \<Rightarrow> exception + string" where
  "getError_forEach message [] = Inr message"
| "getError_forEach message (d # ds) =
     (case diag_file d of
        None \<Rightarrow> Inl TypeError
      | Some file \<Rightarrow> getError_forEach (message @ diagnostic_line file d) ds)"

definition getError :: "diagnostic list \<Rightarrow> exception + js_error" where
  "getError diagnostics =
     (case getError_forEach ''Declaration generation failed'' diagnostics of
        Inl e \<Rightarrow> Inl e
      | Inr message \<Rightarrow> Inr \<lparr>err_name = ''EmitterError'', err_message = message\<rparr>)"

text \<open>
  A diagnostic that has a file and a string as message text, and the line that
  \<open>getError\<close> writes for it, spelled out.
\<close>

definition plain_diagnostic :: "diagnostic_file \<times> nat \<times> string \<Rightarrow> diagnostic" where
  "plain_diagnostic x =
     \<lparr>diag_file = Some (fst x), diag_code = fst (snd x),
      diag_messageText = MessageString (snd (snd x))\<rparr>"

definition plain_line :: "diagnostic_file \<times> nat \<times> string \<Rightarrow> string" where
  "plain_line x =
     [newline] @ df_fileName (fst x) @ ''('' @ show_nat (df_line (fst x) + 1) @ '','' @
     show_nat (df_character (fst x) + 1) @ ''): error TS'' @ show_nat (fst (snd x)) @ '': '' @
     snd (snd x)"


section \<open>Input files: getFilenames\<close>

definition getFilenames :: "path_util \<Rightarrow> string \<Rightarrow> string list \<Rightarrow> string list" where
  "getFilenames P baseDir files =
     map (\<lambda>filename.
            (let resolvedFilename = path_resolve P [filename]
             in if indexOf_is_0 resolvedFilename baseDir then resolvedFilename
                else path_resolve P [baseDir, filename]))
         files"


section \<open>Indentation\<close>

text \<open>
  \<open>nonEmptyLineStart\<close> is compiled from the text \<open>eol + '(?!' + eol + '|$)'\<close>, in which the
  line break stands as it was given. Where the line break holds none of the characters
  that have a meaning of their own in a regular expression, the expression is the line
  break taken literally, not followed by another line break and not at the end of the
  text, and \<open>literal_lineStart_at eol s\<close> says that it matches at the start of \<open>s\<close>. Any
  other line break gives an expression of the engine's own; see \<open>indent_lines\<close> below.
\<close>

definition regex_syntax_chars :: string where
  "regex_syntax_chars = backslash # ''^$.*+?()[]{}|''"

definition literal_source :: "string \<Rightarrow> bool" where
  "literal_source eol = list_all (\<lambda>c. c \<notin> set regex_syntax_chars) eol"

definition literal_lineStart_at :: "string \<Rightarrow> string \<Rightarrow> bool" where
  "literal_lineStart_at eol s =
     (prefix eol s \<and> \<not> prefix eol (drop (length eol) s) \<and> drop (length eol) s \<noteq> [])"

text \<open>
  The second argument of \<open>replace\<close> is a pattern: in it \<open>$$\<close> stands for a dollar sign,
  \<open>$&\<close> for the match, \<open>$`\<close> for the text before the match (\<open>pre\<close>) and \<open>$'\<close> for the text
  after it (\<open>post\<close>). The expression has no groups, so a dollar sign in front of
  anything else is itself.
\<close>

fun expand_replacement :: "string \<Rightarrow> string \<Rightarrow> string \<Rightarrow> string \<Rightarrow> string" where
  "expand_replacement matched pre post [] = []"
| "expand_replacement matched pre post [c] = [c]"
| "expand_replacement matched pre post (c # d # t) =
     (if c \<noteq> CHR ''$'' then c # expand_replacement matched pre post (d # t)
      else if d = CHR ''$'' then CHR ''$'' # expand_replacement matched pre post t
      else if d = CHR ''&'' then matched @ expand_replacement matched pre post t
      else if d = CHR 0x60 then pre @ expand_replacement matched pre post t
      else if d = quote then post @ expand_replacement matched pre post t
      else c # expand_replacement matched pre post (d # t))"

text \<open>
  \<open>replace\<close> with the global expression of a literal line break: the matches are found
  from left to right, and each is replaced by the expansion of the pattern. \<open>pre\<close> is
  the text already passed.
\<close>

function replace_lineStarts :: "string \<Rightarrow> string \<Rightarrow> string \<Rightarrow> string \<Rightarrow> string" where
  "replace_lineStarts eol replacement pre [] = []"
| "replace_lineStarts eol replacement pre (c # cs) =
     (if literal_lineStart_at eol (c # cs)
      then expand_replacement eol pre (drop (length eol) (c # cs)) replacement @
           replace_lineStarts eol replacement (pre @ eol) (drop (length eol) (c # cs))
      else c # replace_lineStarts eol replacement (pre @ [c]) cs)"
  by pat_completeness auto
termination
proof (relation "measure (\<lambda>(eol, replacement, pre, s). length s)")
  show "wf (measure (\<lambda>(eol, replacement, pre, s). length s))" by simp
next
  fix eol replacement pre :: string and c :: char and cs :: string
  assume "literal_lineStart_at eol (c # cs)"
  then have "eol \<noteq> []" by (auto simp: literal_lineStart_at_def)
  then show "((eol, replacement, pre @ eol, drop (length eol) (c # cs)),
              (eol, replacement, pre, c # cs))
               \<in> measure (\<lambda>(eol, replacement, pre, s). length s)"
    by (cases eol) auto
next
  fix eol replacement pre :: string and c :: char and cs :: string
  show "((eol, replacement, pre @ [c], cs), (eol, replacement, pre, c # cs))
          \<in> measure (\<lambda>(eol, replacement, pre, s). length s)"
    by simp
qed

text \<open>
  \<open>content.replace(nonEmptyLineStart, '$&' + indent)\<close>. For a line break that is no
  literal, the answer is the engine's: \<open>engine source replacement content\<close> is what
  \<open>replace\<close> answers with the global expression compiled from \<open>source\<close>.
\<close>

definition indent_lines ::
  "(string \<Rightarrow> string \<Rightarrow> string \<Rightarrow> string) \<Rightarrow> string \<Rightarrow> string \<Rightarrow> string \<Rightarrow> string" where
  "indent_lines engine eol indent content =
     (if literal_source eol then replace_lineStarts eol (''$&'' @ indent) [] content
      else engine (eol @ ''(?!'' @ eol @ ''|$)'') (''$&'' @ indent) content)"

text \<open>
  The spec's words for the same step, to compare with: put the indent after every line
  break that is not followed by another line break or by the end of the text.
\<close>

function spec_indent :: "string \<Rightarrow> string \<Rightarrow> string \<Rightarrow> string" where
  "spec_indent eol indent [] = []"
| "spec_indent eol indent (c # cs) =
     (if literal_lineStart_at eol (c # cs)
      then eol @ indent @ spec_indent eol indent (drop (length eol) (c # cs))
      else c # spec_indent eol indent cs)"
  by pat_completeness auto
termination
proof (relation "measure (\<lambda>(eol, indent, s). length s)")
  show "wf (measure (\<lambda>(eol, indent, s). length s))" by simp
next
  fix eol indent :: string and c :: char and cs :: string
  assume "literal_lineStart_at eol (c # cs)"
  then have "eol \<noteq> []" by (auto simp: literal_lineStart_at_def)
  then show "((eol, indent, drop (length eol) (c # cs)), (eol, indent, c # cs))
               \<in> measure (\<lambda>(eol, indent, s). length s)"
    by (cases eol) auto
next
  fix eol indent :: string and c :: char and cs :: string
  show "((eol, indent, cs), (eol, indent, c # cs)) \<in> measure (\<lambda>(eol, indent, s). length s)"
    by simp
qed


section \<open>The orchestrator: generate and writeDeclaration\<close>

text \<open>
  The options of a run. An optional field is \<open>None\<close> where the caller left it out.
  \<open>out\<close>, \<open>target\<close> and \<open>includes\<close> do not reach the text that is written.
\<close>

record options =
  opt_baseDir :: string
  opt_files :: "string list"
  opt_excludes :: "string list option"
  opt_externs :: "string list option"
  opt_eol :: "string option"
  opt_indent :: "string option"
  opt_main :: "string option"
  opt_name :: string

text \<open>
  The compiler as the bundler sees it. \<open>emit\<close> answers with its output and with the calls
  it made to the \<open>writeFile\<close> callback meanwhile, each a file name and its data.
\<close>

record emit_output =
  emitSkipped :: bool
  diagnostics :: "diagnostic list"
  emitted :: "(string \<times> string) list"

record program =
  getSourceFiles :: "source_file list"
  emit :: "source_file \<Rightarrow> emit_output"
  getSemanticDiagnostics :: "source_file \<Rightarrow> diagnostic list"
  getSyntacticDiagnostics :: "source_file \<Rightarrow> diagnostic list"
  getDeclarationDiagnostics :: "source_file \<Rightarrow> diagnostic list"

text \<open>
  The host: its path module, its line break, the compiler, and the engine's regular
  expressions as far as the model leaves them to the engine. For a source text that is
  not a literal line break, \<open>regexp_compiles\<close> says whether \<open>new RegExp\<close> accepts it, and
  \<open>regexp_replace source replacement content\<close> is what \<open>content.replace\<close> answers with
  the global expression compiled from it.
\<close>

record host =
  pathUtil :: path_util
  os_EOL :: string
  createProgram :: "string list \<Rightarrow> program"
  createSourceFile :: "string \<Rightarrow> string \<Rightarrow> source_file"
  regexp_compiles :: "string \<Rightarrow> bool"
  regexp_replace :: "string \<Rightarrow> string \<Rightarrow> string \<Rightarrow> string"

text \<open>
  What a run leaves behind: the strings given to \<open>output.write\<close> (the field
  \<open>writes\<close>) and to \<open>sendMessage\<close>, in order, what the promise was rejected with (an
  exception or the error of \<open>getError\<close>), whether \<open>output.end\<close> was called, and the
  exception that cut the run short, if one did. Failures of the stream itself are not
  part of the model.
\<close>

record run =
  writes :: "string list"
  messages :: "string list"
  rejected :: "(exception + js_error) option"
  ended :: bool
  thrown :: "exception option"

definition output_write :: "string \<Rightarrow> run \<Rightarrow> run" where
  "output_write s st = st\<lparr>writes := writes st @ [s]\<rparr>"

definition sendMessage :: "string \<Rightarrow> run \<Rightarrow> run" where
  "sendMessage s st = st\<lparr>messages := messages st @ [s]\<rparr>"

text \<open>A promise keeps the first value it is rejected with.\<close>

definition reject :: "exception + js_error \<Rightarrow> run \<Rightarrow> run" where
  "reject e st = (case rejected st of None \<Rightarrow> st\<lparr>rejected := Some e\<rparr> | Some e0 \<Rightarrow> st)"

text \<open>The values \<open>generate\<close> computes first and its inner functions close over.\<close>

record settings =
  set_baseDir :: string
  set_eol :: string
  set_indent :: string
  set_name :: string

text \<open>
  The expression of an external module reference is the one child the compiler
  enumerates for it. The parser never leaves it out; the source would raise a
  \<open>TypeError\<close> on reading its text if it did.
\<close>

fun expression :: "node \<Rightarrow> node option" where
  "expression n = (case children n of [] \<Rightarrow> None | e # es \<Rightarrow> Some e)"

text \<open>The function that \<open>writeDeclaration\<close> passes to \<open>processTree\<close>.\<close>

definition declaration_replacer :: "path_util \<Rightarrow> string \<Rightarrow> node \<Rightarrow> string option" where
  "declaration_replacer P sourceModuleId n =
     (if kind n = ExternalModuleReference then
        (case expression n of
           None \<Rightarrow> None
         | Some e \<Rightarrow>
             if charAt0_is (literalText e) CHR ''.'' then
               Some ('' require('' @ [quote] @
                     path_join P [path_dirname P sourceModuleId, literalText e] @ [quote] @ '')'')
             else None)
      else if kind n = DeclareKeyword then Some []
      else if kind n = StringLiteral \<and>
              (parentKind n = ExportDeclaration \<or> parentKind n = ImportDeclaration) then
        (if charAt0_is (literalText n) CHR ''.'' then
           Some ('' '' @ [quote] @
                 path_join P [path_dirname P sourceModuleId, literalText n] @ [quote])
         else None)
      else None)"

definition writeDeclaration :: "host \<Rightarrow> settings \<Rightarrow> source_file \<Rightarrow> run \<Rightarrow> run" where
  "writeDeclaration H S declarationFile st =
     (let filename = fileName declarationFile;
          mid = sourceModuleId_of (path_sep (pathUtil H)) (set_name S) (set_baseDir S) filename
      in if externalModuleIndicator declarationFile then
           (let st1 = output_write (''declare module '' @ [quote] @ mid @ [quote] @ '' {'' @
                                    set_eol S @ set_indent S) st;
                content = processTree declarationFile (declaration_replacer (pathUtil H) mid);
                st2 = output_write
                        (indent_lines (regexp_replace H) (set_eol S) (set_indent S) content) st1
            in output_write (set_eol S @ ''}'' @ set_eol S) st2)
         else output_write (fileText declarationFile) st)"

text \<open>The callback given to \<open>emit\<close>, and the calls of one \<open>emit\<close> in order.\<close>

definition writeFile :: "host \<Rightarrow> settings \<Rightarrow> string \<times> string \<Rightarrow> run \<Rightarrow> run" where
  "writeFile H S call st =
     (if slice_from (fst call) (- 5) \<noteq> ''.d.ts'' then st
      else writeDeclaration H S (createSourceFile H (fst call) (snd call)) st)"

fun writeFile_calls :: "host \<Rightarrow> settings \<Rightarrow> (string \<times> string) list \<Rightarrow> run \<Rightarrow> run" where
  "writeFile_calls H S [] st = st"
| "writeFile_calls H S (call # calls) st = writeFile_calls H S calls (writeFile H S call st)"

text \<open>
  The function given to \<open>some\<close>, for one source file: the run afterwards, and whether
  the iteration stops there. It stops when the function answers \<open>true\<close>, and when
  \<open>getError\<close> raises an exception, which then goes on through \<open>some\<close> (the field
  \<open>thrown\<close>) before \<open>reject\<close> is called.
\<close>

definition process_sourceFile ::
  "host \<Rightarrow> settings \<Rightarrow> program \<Rightarrow> string list \<Rightarrow> source_file \<Rightarrow> run \<Rightarrow> run \<times> bool" where
  "process_sourceFile H S prog excludesMap sourceFile st =
     (if \<not> indexOf_is_0 (path_normalize (pathUtil H) (fileName sourceFile)) (set_baseDir S)
      then (st, False)
      else if fileName sourceFile \<in> set excludesMap then (st, False)
      else
        (let st1 = sendMessage (''Processing '' @ fileName sourceFile) st
         in if slice_from (fileName sourceFile) (- 5) = ''.d.ts''
            then (writeDeclaration H S sourceFile st1, False)
            else
              (let emitOutput = emit prog sourceFile;
                   st2 = writeFile_calls H S (emitted emitOutput) st1
               in if emitSkipped emitOutput \<or> diagnostics emitOutput \<noteq> [] then
                    (case getError (diagnostics emitOutput
                                    @ getSemanticDiagnostics prog sourceFile
                                    @ getSyntacticDiagnostics prog sourceFile
                                    @ getDeclarationDiagnostics prog sourceFile) of
                       Inl e \<Rightarrow> (st2\<lparr>thrown := Some e\<rparr>, True)
                     | Inr error \<Rightarrow> (reject (Inr error) st2, True))
                  else (st2, False))))"

fun some_sourceFile ::
  "host \<Rightarrow> settings \<Rightarrow> program \<Rightarrow> string list \<Rightarrow> source_file list \<Rightarrow> run \<Rightarrow> run" where
  "some_sourceFile H S prog excludesMap [] st = st"
| "some_sourceFile H S prog excludesMap (sourceFile # rest) st =
     (let r = process_sourceFile H S prog excludesMap sourceFile st
      in if snd r then fst r else some_sourceFile H S prog excludesMap rest (fst r))"

text \<open>
  The promise's body: the reference lines, the iteration over the source files, the
  alias block and the end of the stream.
\<close>

fun write_externs :: "string \<Rightarrow> string list \<Rightarrow> run \<Rightarrow> run" where
  "write_externs eol [] st = st"
| "write_externs eol (path # paths) st =
     write_externs eol paths
       (output_write (''/// <reference path='' @ [dquote] @ path @ [dquote] @ '' />'' @ eol)
          (sendMessage (''Writing external dependency '' @ path) st))"

text \<open>
  \<open>if (options.main)\<close> and \<open>options.eol || os.EOL\<close> test an optional string for
  truthiness: left out and empty both count as false.
\<close>

definition write_main :: "settings \<Rightarrow> options \<Rightarrow> run \<Rightarrow> run" where
  "write_main S opts st =
     (case opt_main opts of
        None \<Rightarrow> st
      | Some m \<Rightarrow>
          if m = [] then st
          else
            (let st1 = output_write (''declare module '' @ [quote] @ opt_name opts @ [quote] @
                                     '' {'' @ set_eol S @ set_indent S) st;
                 st2 = output_write (''import main = require('' @ [quote] @ m @ [quote] @ '');'' @
                                     set_eol S @ set_indent S) st1;
                 st3 = output_write (''export = main;'' @ set_eol S) st2;
                 st4 = output_write (''}'' @ set_eol S) st3
             in sendMessage (''Aliased main module '' @ opt_name opts @ '' to '' @ m) st4))"

definition settings_of :: "host \<Rightarrow> options \<Rightarrow> settings" where
  "settings_of H opts =
     \<lparr>set_baseDir = path_resolve (pathUtil H) [opt_baseDir opts],
      set_eol = (case opt_eol opts of
                   None \<Rightarrow> os_EOL H
                 | Some e \<Rightarrow> if e = [] then os_EOL H else e),
      set_indent = (case opt_indent opts of None \<Rightarrow> [tab] | Some i \<Rightarrow> i),
      set_name = opt_name opts\<rparr>"

definition initial_run :: run where
  "initial_run =
     \<lparr>writes = [], messages = [], rejected = None, ended = False, thrown = None\<rparr>"

definition bundle_files :: "host \<Rightarrow> options \<Rightarrow> run" where
  "bundle_files H opts =
     (let S = settings_of H opts;
          filenames = getFilenames (pathUtil H) (set_baseDir S) (opt_files opts);
          excludesMap = (case opt_excludes opts of
                           None \<Rightarrow> []
                         | Some excludes \<Rightarrow>
                             map (\<lambda>filename. path_resolve (pathUtil H) [set_baseDir S, filename])
                                 excludes);
          prog = createProgram H filenames;
          st1 = (case opt_externs opts of
                   None \<Rightarrow> initial_run
                 | Some externs \<Rightarrow> write_externs (set_eol S) externs initial_run)
      in some_sourceFile H S prog excludesMap (getSourceFiles prog) st1)"

text \<open>
  \<open>generate\<close> compiles \<open>nonEmptyLineStart\<close> before it opens the stream: where the
  expression does not compile, \<open>generate\<close> raises a \<open>SyntaxError\<close> and nothing is written.
  An exception raised inside the promise's function ends that function there, so that
  neither the alias block is written nor the stream ended, and rejects the promise.
\<close>

definition nonEmptyLineStart_compiles :: "host \<Rightarrow> string \<Rightarrow> bool" where
  "nonEmptyLineStart_compiles H eol =
     (literal_source eol \<or> regexp_compiles H (eol @ ''(?!'' @ eol @ ''|$)''))"

definition generate :: "host \<Rightarrow> options \<Rightarrow> run" where
  "generate H opts =
     (if \<not> nonEmptyLineStart_compiles H (set_eol (settings_of H opts))
      then initial_run\<lparr>thrown := Some SyntaxError\<rparr>
      else
        (let st = bundle_files H opts
         in case thrown st of
              Some e \<Rightarrow> reject (Inl e) st
            | None \<Rightarrow> (write_main (settings_of H opts) opts st)\<lparr>ended := True\<rparr>))"


section \<open>Inputs to run the definitions on\<close>

text \<open>
  The two lines \<open>import a = require('./x');\<close> and \<open>export declare var v: a.T;\<close>, each
  ended by a line feed, with the positions the parser gives: an import declaration
  (its name and its external module reference), a variable statement (its modifiers
  \<open>export\<close> and \<open>declare\<close> and its declaration list) and the end-of-file token. A
  node's \<open>pos\<close> is the end of the token before it, so the blank before \<open>declare\<close>
  belongs to the keyword's node.
\<close>

definition example_text :: string where
  "example_text =
     ''import a = require('' @ [quote] @ ''./x'' @ [quote] @ '');'' @ [newline] @
     ''export declare var v: a.T;'' @ [newline]"

definition example_tree :: node where
  "example_tree =
     Node SourceFileKind 0 54 [] SourceFileKind
      [Node (OtherKind 209) 0 26 [] SourceFileKind
         [Node (OtherKind 65) 6 8 ''a'' (OtherKind 209) [],
          Node ExternalModuleReference 10 25 [] (OtherKind 209)
            [Node StringLiteral 19 24 ''./x'' ExternalModuleReference []]],
       Node (OtherKind 181) 26 53 [] SourceFileKind
         [Node (OtherKind 78) 26 33 [] (OtherKind 181) [],
          Node DeclareKeyword 33 41 [] (OtherKind 181) [],
          Node (OtherKind 200) 41 52 [] (OtherKind 181) []],
       Node (OtherKind 1) 53 54 [] SourceFileKind []]"

definition example_file :: source_file where
  "example_file =
     \<lparr>fileName = ''/base/a/b.d.ts'', fileText = example_text,
      externalModuleIndicator = True, tree = example_tree\<rparr>"


text \<open>
  Diagnostics of \<open>/base/a.ts\<close>: one at line 1, column 12 with a string as message; one
  at line 3, column 1 whose message is a chain of two; and one that has no file.
\<close>

definition example_diagnostic :: diagnostic where
  "example_diagnostic =
     \<lparr>diag_file = Some \<lparr>df_fileName = ''/base/a.ts'', df_line = 0, df_character = 11\<rparr>,
      diag_code = 2304, diag_messageText = MessageString ''Cannot find name.''\<rparr>"

definition chained_diagnostic :: diagnostic where
  "chained_diagnostic =
     \<lparr>diag_file = Some \<lparr>df_fileName = ''/base/a.ts'', df_line = 2, df_character = 0\<rparr>,
      diag_code = 2322,
      diag_messageText =
        MessageChain
          (DiagnosticMessageChain ''Type A is not assignable to type B.'' 2322
             (Some (DiagnosticMessageChain ''Property x is missing in type A.'' 2324 None)))\<rparr>"

definition fileless_diagnostic :: diagnostic where
  "fileless_diagnostic =
     \<lparr>diag_file = None, diag_code = 5033,
      diag_messageText = MessageString ''Could not write file.''\<rparr>"


text \<open>
  The same file after rewriting inside the module \<open>mylib/a/b\<close>, and single nodes of
  it: the \<open>declare\<close> keyword with the blank before it, and the external module
  reference. One more node: the path of an \<open>import ... from './x'\<close> declaration.
\<close>

definition example_rewritten :: string where
  "example_rewritten =
     ''import a = require('' @ [quote] @ ''mylib/a/x'' @ [quote] @ '');'' @ [newline] @
     ''export var v: a.T;'' @ [newline]"

definition declare_node :: node where
  "declare_node = Node DeclareKeyword 33 41 [] (OtherKind 181) []"

definition reference_node :: node where
  "reference_node =
     Node ExternalModuleReference 10 25 [] (OtherKind 209)
       [Node StringLiteral 19 24 ''./x'' ExternalModuleReference []]"

definition import_path_node :: node where
  "import_path_node = Node StringLiteral 13 19 ''./x'' ImportDeclaration []"

text \<open>
  A Windows host, as far as the rewriting calls it. Its separator is the backslash. For
  relative paths written with slashes, without a drive letter or a share in front, its
  \<open>join\<close> normalises as the POSIX one does and writes backslashes, and its \<open>dirname\<close> cuts
  at the last separator as the POSIX one does. The rewriting calls neither \<open>resolve\<close>
  nor \<open>normalize\<close>; these two fields only fill the record.
\<close>

definition backslash_join :: "string list \<Rightarrow> string" where
  "backslash_join segments =
     map (\<lambda>c. if c = CHR ''/'' then backslash else c) (posix_join segments)"

definition windows_path :: path_util where
  "windows_path =
     \<lparr>path_sep = backslash, path_resolve = posix_resolve [], path_normalize = posix_normalize,
      path_join = backslash_join, path_dirname = posix_dirname\<rparr>"


text \<open>
  Hosts and options for whole runs, all on a POSIX host with the working directory
  \<open>/base\<close> and the line feed as line break. The first program holds the declaration
  file above. The second holds a source file for which \<open>emit\<close> reports the first
  diagnostic above and writes nothing, then the declaration file above, and its options
  name a main module. The third is the second with the diagnostic that has no file.
  The fourth holds no file at all. The parser of these hosts is never called, and
  neither is their engine asked about a regular expression, the line feed being a
  literal.
\<close>

definition example_parse :: "string \<Rightarrow> string \<Rightarrow> source_file" where
  "example_parse filename data =
     \<lparr>fileName = filename, fileText = data, externalModuleIndicator = False,
      tree = Node SourceFileKind 0 (length data) [] SourceFileKind []\<rparr>"

definition no_diagnostics :: "source_file \<Rightarrow> diagnostic list" where
  "no_diagnostics sourceFile = []"

definition dts_program :: program where
  "dts_program =
     \<lparr>getSourceFiles = [example_file],
      emit = (\<lambda>sourceFile. \<lparr>emitSkipped = False, diagnostics = [], emitted = []\<rparr>),
      getSemanticDiagnostics = no_diagnostics, getSyntacticDiagnostics = no_diagnostics,
      getDeclarationDiagnostics = no_diagnostics\<rparr>"

definition dts_host :: host where
  "dts_host =
     \<lparr>pathUtil = posix_path ''/base'', os_EOL = [newline],
      createProgram = (\<lambda>filenames. dts_program), createSourceFile = example_parse,
      regexp_compiles = (\<lambda>source. False),
      regexp_replace = (\<lambda>source replacement content. content)\<rparr>"

definition dts_options :: options where
  "dts_options =
     \<lparr>opt_baseDir = ''/base'', opt_files = [''a/b.d.ts''], opt_excludes = None,
      opt_externs = None, opt_eol = None, opt_indent = None, opt_main = None,
      opt_name = ''mylib''\<rparr>"

definition failing_file :: source_file where
  "failing_file =
     \<lparr>fileName = ''/base/a.ts'', fileText = ''export var x: number = y;'',
      externalModuleIndicator = True,
      tree = Node SourceFileKind 0 25 [] SourceFileKind []\<rparr>"

definition failing_program :: program where
  "failing_program =
     \<lparr>getSourceFiles = [failing_file, example_file],
      emit = (\<lambda>sourceFile. \<lparr>emitSkipped = False, diagnostics = [example_diagnostic],
                              emitted = []\<rparr>),
      getSemanticDiagnostics = no_diagnostics, getSyntacticDiagnostics = no_diagnostics,
      getDeclarationDiagnostics = no_diagnostics\<rparr>"

definition failing_host :: host where
  "failing_host =
     \<lparr>pathUtil = posix_path ''/base'', os_EOL = [newline],
      createProgram = (\<lambda>filenames. failing_program), createSourceFile = example_parse,
      regexp_compiles = (\<lambda>source. False),
      regexp_replace = (\<lambda>source replacement content. content)\<rparr>"

definition failing_options :: options where
  "failing_options =
     \<lparr>opt_baseDir = ''/base'', opt_files = [''a.ts'', ''a/b.d.ts''], opt_excludes = None,
      opt_externs = None, opt_eol = None, opt_indent = None, opt_main = Some ''mylib/a'',
      opt_name = ''mylib''\<rparr>"

definition fileless_program :: program where
  "fileless_program =
     \<lparr>getSourceFiles = [failing_file, example_file],
      emit = (\<lambda>sourceFile. \<lparr>emitSkipped = False, diagnostics = [fileless_diagnostic],
                              emitted = []\<rparr>),
      getSemanticDiagnostics = no_diagnostics, getSyntacticDiagnostics = no_diagnostics,
      getDeclarationDiagnostics = no_diagnostics\<rparr>"

definition fileless_host :: host where
  "fileless_host =
     \<lparr>pathUtil = posix_path ''/base'', os_EOL = [newline],
      createProgram = (\<lambda>filenames. fileless_program), createSourceFile = example_parse,
      regexp_compiles = (\<lambda>source. False),
      regexp_replace = (\<lambda>source replacement content. content)\<rparr>"

definition empty_program :: program where
  "empty_program =
     \<lparr>getSourceFiles = [],
      emit = (\<lambda>sourceFile. \<lparr>emitSkipped = False, diagnostics = [], emitted = []\<rparr>),
      getSemanticDiagnostics = no_diagnostics, getSyntacticDiagnostics = no_diagnostics,
      getDeclarationDiagnostics = no_diagnostics\<rparr>"

definition empty_host :: host where
  "empty_host =
     \<lparr>pathUtil = posix_path ''/base'', os_EOL = [newline],
      createProgram = (\<lambda>filenames. empty_program), createSourceFile = example_parse,
      regexp_compiles = (\<lambda>source. False),
      regexp_replace = (\<lambda>source replacement content. content)\<rparr>"

definition pkg_options :: "string \<Rightarrow> options" where
  "pkg_options m =
     \<lparr>opt_baseDir = ''/base'', opt_files = [], opt_excludes = None,
      opt_externs = None, opt_eol = None, opt_indent = None, opt_main = Some m,
      opt_name = ''pkg''\<rparr>"


section \<open>Facts about slices and segments\<close>

lemma slice_nat: "slice s (int a) (int b) = take (b - a) (drop a s)"
  by (auto simp: slice_def clamp_index_def Let_def min_def)

lemma slice_from_nat: "slice_from s (int a) = drop a s"
  by (auto simp: slice_from_def slice_def clamp_index_def Let_def min_def)

lemma tiles_append: "tiles a b xs \<Longrightarrow> tiles b c ys \<Longrightarrow> tiles a c (xs @ ys)"
  by (induction xs arbitrary: a) auto

lemma tiles_le: "tiles a b xs \<Longrightarrow> a \<le> b"
proof (induction xs arbitrary: a)
  case Nil
  then show ?case by simp
next
  case (Cons s ss)
  from Cons.prems have "a \<le> seg_end s" and "tiles (seg_end s) b ss" by simp_all
  with Cons.IH show ?case by (meson le_trans)
qed

lemma from_tree_mono:
  "from_tree replacer ns s \<Longrightarrow> set ns \<subseteq> set ms \<Longrightarrow> from_tree replacer ms s"
  by (cases s) auto

lemma take_drop_join:
  assumes "a \<le> j" and "j \<le> b"
  shows "take (j - a) (drop a s) @ take (b - j) (drop j s) = take (b - a) (drop a s)"
proof -
  from assms have "b - a = (j - a) + (b - j)" by simp
  then have "take (b - a) (drop a s) =
               take (j - a) (drop a s) @ take (b - j) (drop (j - a) (drop a s))"
    by (simp only: take_add)
  with assms show ?thesis by simp
qed

lemma passed_only:
  "tiles a b segs \<Longrightarrow> \<forall>s \<in> set segs. \<exists>i j. s = Passed i j \<Longrightarrow>
     concat (map (render src) segs) = take (b - a) (drop a src)"
proof (induction segs arbitrary: a)
  case Nil
  then show ?case by simp
next
  case (Cons s ss)
  from Cons.prems(2) obtain i j where s: "s = Passed i j" by auto
  with Cons.prems(1) have ia: "i = a" and aj: "a \<le> j" and t: "tiles j b ss" by simp_all
  from tiles_le[OF t] have jb: "j \<le> b" .
  from Cons.IH[OF t] Cons.prems(2) have "concat (map (render src) ss) = take (b - j) (drop j src)"
    by simp
  then show ?case using s ia take_drop_join[OF aj jb] by simp
qed

lemma example_text_length: "length example_text = 54"
  by (simp add: example_text_def)

lemma example_file_wf: "wf_source_file example_file"
  by (simp add: wf_source_file_def example_file_def example_tree_def example_text_length)


section \<open>The walk covers the source once\<close>

text \<open>
  One visit, started with the cursor at or before the node's range, appends the
  rendering of segments that tile the source from the cursor to the new cursor, and
  the new cursor does not pass the node's end. The same holds for a run of siblings.
\<close>

lemma visit_cover:
  "wf_node lo hi n \<Longrightarrow> snd st \<le> lo \<Longrightarrow>
     \<exists>segs c. visit src replacer n st = (fst st @ concat (map (render src) segs), c)
        \<and> tiles (snd st) c segs \<and> c \<le> endpos n
        \<and> (\<forall>s \<in> set segs. from_tree replacer (subnodes n) s)"
  and children_cover:
  "wf_nodes lo hi ns \<Longrightarrow> snd st \<le> lo \<Longrightarrow> lo \<le> hi \<Longrightarrow>
     \<exists>segs c. forEachChild_visit src replacer ns st = (fst st @ concat (map (render src) segs), c)
        \<and> tiles (snd st) c segs \<and> c \<le> hi
        \<and> (\<forall>s \<in> set segs. from_tree replacer (subnodes_list ns) s)"
proof (induction src replacer n st and src replacer ns st arbitrary: lo hi and lo hi
       rule: visit_forEachChild_visit.induct)
  case (1 src replacer n st)
  from "1.prems" have bounds: "lo \<le> pos n" "pos n \<le> endpos n"
    and kids: "wf_nodes (pos n) (endpos n) (children n)" by simp_all
  define p where "p = Passed (snd st) (pos n)"
  define st1 where "st1 = readThrough src n st"
  have st1: "fst st1 = fst st @ render src p" "snd st1 = pos n"
    by (simp_all add: st1_def p_def readThrough_def slice_nat)
  have tp: "tiles (snd st) (pos n) [p]"
    using bounds "1.prems"(2) by (simp add: p_def)
  show ?case
  proof (cases "replacer n")
    case None
    from "1.IH"[OF st1_def None kids] st1 bounds
    obtain segs c where
      run: "forEachChild_visit src replacer (children n) st1 =
              (fst st1 @ concat (map (render src) segs), c)"
      and t: "tiles (pos n) c segs" and c: "c \<le> endpos n"
      and ft: "\<forall>s \<in> set segs. from_tree replacer (subnodes_list (children n)) s"
      by auto
    have "visit src replacer n st = (fst st @ concat (map (render src) (p # segs)), c)"
      using None run st1 by (simp add: st1_def)
    moreover have "tiles (snd st) c (p # segs)"
      using tiles_append[OF tp t] by simp
    moreover have "\<forall>s \<in> set (p # segs). from_tree replacer (subnodes n) s"
      using ft by (auto simp: p_def intro: from_tree_mono)
    ultimately show ?thesis using c by blast
  next
    case (Some r)
    let ?segs = "[p, Substituted (pos n) (endpos n) r]"
    have "visit src replacer n st = (fst st @ concat (map (render src) ?segs), endpos n)"
      using Some st1 by (simp add: st1_def[symmetric] skip_def)
    moreover have "tiles (snd st) (endpos n) ?segs"
      using bounds "1.prems"(2) by (simp add: p_def)
    moreover have "\<forall>s \<in> set ?segs. from_tree replacer (subnodes n) s"
      using Some by (simp add: p_def)
    ultimately show ?thesis by blast
  qed
next
  case (2 src replacer st)
  have "forEachChild_visit src replacer [] st = (fst st @ concat (map (render src) []), snd st)"
    by simp
  moreover have "tiles (snd st) (snd st) []" by simp
  moreover have "snd st \<le> hi" using "2.prems" by simp
  ultimately show ?case by (metis empty_iff list.set(1))
next
  case (3 src replacer c cs st)
  from "3.prems" have wc: "wf_node lo hi c" and wcs: "wf_nodes (endpos c) hi cs"
    and eh: "endpos c \<le> hi" by simp_all
  from "3.IH"(1)[OF wc "3.prems"(2)] obtain segs1 c1 where
    r1: "visit src replacer c st = (fst st @ concat (map (render src) segs1), c1)"
    and t1: "tiles (snd st) c1 segs1" and c1: "c1 \<le> endpos c"
    and f1: "\<forall>s \<in> set segs1. from_tree replacer (subnodes c) s"
    by blast
  from "3.IH"(2)[OF wcs _ eh] r1 c1 obtain segs2 c2 where
    r2: "forEachChild_visit src replacer cs (visit src replacer c st) =
           (fst (visit src replacer c st) @ concat (map (render src) segs2), c2)"
    and t2: "tiles c1 c2 segs2" and c2: "c2 \<le> hi"
    and f2: "\<forall>s \<in> set segs2. from_tree replacer (subnodes_list cs) s"
    by auto
  have "forEachChild_visit src replacer (c # cs) st =
          (fst st @ concat (map (render src) (segs1 @ segs2)), c2)"
    using r1 r2 by simp
  moreover have "tiles (snd st) c2 (segs1 @ segs2)"
    using tiles_append[OF t1 t2] .
  moreover have "\<forall>s \<in> set (segs1 @ segs2). from_tree replacer (subnodes_list (c # cs)) s"
    using f1 f2 by (auto intro: from_tree_mono)
  ultimately show ?case using c2 by blast
qed

text \<open>
  Claim C2. For a source file whose tree has the positions the parser guarantees, and
  for every replacer, the output of \<open>processTree\<close> is the concatenation of segments that
  cover the source text from its start to its end exactly once, each segment either a
  span of the source passed through or the span of a node replaced by what the replacer
  returned for that node. When the replacer returns nothing for every node of the tree,
  the output is the source text itself.
\<close>

theorem processTree_covers_source:
  assumes "wf_source_file sf"
  shows "(\<exists>segs. tiles 0 (length (fileText sf)) segs
            \<and> (\<forall>s \<in> set segs. from_tree replacer (subnodes (tree sf)) s)
            \<and> processTree sf replacer = concat (map (render (fileText sf)) segs))
       \<and> ((\<forall>n \<in> set (subnodes (tree sf)). replacer n = None) \<longrightarrow>
            processTree sf replacer = fileText sf)"
proof -
  let ?src = "fileText sf"
  from assms have wf: "wf_node 0 (length ?src) (tree sf)" by (simp add: wf_source_file_def)
  from visit_cover[OF wf, of "([], 0)" ?src replacer] obtain segs c where
    run: "visit ?src replacer (tree sf) ([], 0) = (concat (map (render ?src) segs), c)"
    and t: "tiles 0 c segs" and c: "c \<le> endpos (tree sf)"
    and ft: "\<forall>s \<in> set segs. from_tree replacer (subnodes (tree sf)) s"
    by auto
  from wf c have cl: "c \<le> length ?src" by simp
  let ?all = "segs @ [Passed c (length ?src)]"
  have tiles_all: "tiles 0 (length ?src) ?all"
    using tiles_append[OF t, of "length ?src" "[Passed c (length ?src)]"] cl by simp
  have ft_all: "\<forall>s \<in> set ?all. from_tree replacer (subnodes (tree sf)) s"
    using ft by simp
  have out: "processTree sf replacer = concat (map (render ?src) ?all)"
    using run cl by (simp add: processTree_def slice_from_nat)
  have ident: "processTree sf replacer = ?src"
    if none: "\<forall>n \<in> set (subnodes (tree sf)). replacer n = None"
  proof -
    have "\<forall>s \<in> set ?all. \<exists>i j. s = Passed i j"
    proof
      fix s assume "s \<in> set ?all"
      with ft_all have "from_tree replacer (subnodes (tree sf)) s" by blast
      with none show "\<exists>i j. s = Passed i j" by (cases s) auto
    qed
    from passed_only[OF tiles_all this, of ?src] out show ?thesis by simp
  qed
  from tiles_all ft_all out ident show ?thesis by blast
qed

theorem processTree_covers_source_witness:
  "wf_source_file example_file \<and>
   processTree example_file (\<lambda>n. None) = fileText example_file"
  using processTree_covers_source[OF example_file_wf, of "\<lambda>n. None"] example_file_wf
  by simp


section \<open>Indentation of the lines after the first\<close>







text \<open>
  With no dollar sign in the indent, the pattern \<open>'$&' + indent\<close> expands to the match
  followed by the indent, and \<open>replace\<close> does what the spec's words say.
\<close>

lemma expand_no_dollar:
  "CHR ''$'' \<notin> set t \<Longrightarrow> expand_replacement matched pre post t = t"
  by (induction matched pre post t rule: expand_replacement.induct) auto

lemma replace_lineStarts_spec:
  "CHR ''$'' \<notin> set ind \<Longrightarrow>
     replace_lineStarts eol (''$&'' @ ind) pre s = spec_indent eol ind s"
proof (induction eol ind s arbitrary: pre rule: spec_indent.induct)
  case (1 eol indent)
  then show ?case by simp
next
  case (2 eol indent c cs)
  show ?case
  proof (cases "literal_lineStart_at eol (c # cs)")
    case True
    with 2(1)[OF True "2.prems", of "pre @ eol"] "2.prems" show ?thesis
      by (simp add: expand_no_dollar)
  next
    case False
    with 2(2)[OF False "2.prems", of "pre @ [c]"] show ?thesis by simp
  qed
qed





section \<open>Module identifiers use forward slashes\<close>

lemma slice_strip:
  assumes "length pre = length baseDir"
  shows "slice (pre @ rel @ ''.d.ts'') (int (length baseDir)) (- 5) = rel"
proof -
  have a: "clamp_index (pre @ rel @ ''.d.ts'') (int (length baseDir)) = length pre"
    using assms by (simp add: clamp_index_def)
  have b: "clamp_index (pre @ rel @ ''.d.ts'') (- 5) = length pre + length rel"
    by (simp add: clamp_index_def)
  show ?thesis by (simp add: slice_def a b)
qed

lemma filenameToMid_components:
  "\<forall>(s, c) \<in> set rel. (s = sep \<or> s = CHR ''/'') \<and> sep \<notin> set c \<Longrightarrow>
     filenameToMid sep (concat (map (\<lambda>(s, c). s # c) rel)) = concat (map (\<lambda>(s, c). CHR ''/'' # c) rel)"
proof (induction rel)
  case Nil
  then show ?case by (simp add: filenameToMid_def)
next
  case (Cons a rel)
  obtain s c where a: "a = (s, c)" by (cases a)
  with Cons.prems have s: "s = sep \<or> s = CHR ''/''" and c: "sep \<notin> set c"
    and rest: "\<forall>(s, c) \<in> set rel. (s = sep \<or> s = CHR ''/'') \<and> sep \<notin> set c" by auto
  from c have keep: "map (\<lambda>x. if x = sep then CHR ''/'' else x) c = c"
    by (induction c) auto
  from Cons.IH[OF rest] s a keep show ?case
    by (auto simp: filenameToMid_def)
qed

text \<open>
  Claim C5, amended. The host's separator is the slash or the backslash. The file name
  is the base directory, or any text of the same length (the compiler may write the
  same directory with other separators), then the
  components of the relative path, each after a separator that is the host's or the
  slash, then the declaration suffix: a separator follows the base directory, which
  therefore does not end in one. No component holds the host's separator. The module
  id is then the namespace name followed by the components, each after a slash,
  whatever the host's separator is. For \<open>/base/foo/bar.d.ts\<close> under \<open>/base\<close> and the
  namespace \<open>mylib\<close> it is \<open>mylib/foo/bar\<close>.
\<close>

theorem sourceModuleId_forward_slashes:
  assumes "sep = CHR ''/'' \<or> sep = backslash"
    and "length pre = length baseDir"
    and "\<forall>(s, c) \<in> set rel. (s = sep \<or> s = CHR ''/'') \<and> sep \<notin> set c"
  shows "sourceModuleId_of sep name baseDir (pre @ concat (map (\<lambda>(s, c). s # c) rel) @ ''.d.ts'')
           = name @ concat (map (\<lambda>(s, c). CHR ''/'' # c) rel)
         \<and> sourceModuleId_of CHR ''/'' ''mylib'' ''/base'' ''/base/foo/bar.d.ts'' = ''mylib/foo/bar''"
proof -
  have "sourceModuleId_of CHR ''/'' ''mylib'' ''/base'' ''/base/foo/bar.d.ts'' = ''mylib/foo/bar''"
    by (simp add: sourceModuleId_of_def filenameToMid_def slice_def clamp_index_def)
  then show ?thesis
    using slice_strip[OF assms(2)] filenameToMid_components[OF assms(3)]
    by (simp add: sourceModuleId_of_def)
qed

theorem sourceModuleId_forward_slashes_witness:
  "(backslash = CHR ''/'' \<or> backslash = backslash)
   \<and> length ''C:/base'' = length (''C:'' @ [backslash] @ ''base'')
   \<and> list_all (\<lambda>(s, c). (s = backslash \<or> s = CHR ''/'') \<and> backslash \<notin> set c)
         [(CHR ''/'', ''foo''), (backslash, ''bar'')]
   \<and> sourceModuleId_of backslash ''mylib'' (''C:'' @ [backslash] @ ''base'')
        (''C:/base/foo'' @ [backslash] @ ''bar.d.ts'') = ''mylib/foo/bar''"
proof -
  have len: "length ''C:/base'' = length (''C:'' @ [backslash] @ ''base'')" by simp
  have comps: "\<forall>(s, c) \<in> set [(CHR ''/'', ''foo''), (backslash, ''bar'')].
         (s = backslash \<or> s = CHR ''/'') \<and> backslash \<notin> set c"
    by (simp add: backslash_def)
  have sep: "backslash = CHR ''/'' \<or> backslash = backslash" by simp
  from sourceModuleId_forward_slashes[OF sep len comps, of "''mylib''"] len comps
  show ?thesis by simp
qed

text \<open>
  Claim C5 as stated fails where the base directory is the root \<open>/\<close>, which ends in a
  separator: \<open>resolve\<close> leaves it as it is, \<open>/foo/bar.d.ts\<close> lies under it, and the module
  id under the namespace \<open>mylib\<close> is \<open>mylibfoo/bar\<close>, the name and the relative path with
  nothing between them.
\<close>

theorem sourceModuleId_forward_slashes_counterexample:
  "path_resolve (posix_path ''/home'') [''/''] = ''/''
   \<and> indexOf_is_0 (path_normalize (posix_path ''/home'') ''/foo/bar.d.ts'') ''/''
   \<and> sourceModuleId_of CHR ''/'' ''mylib'' ''/'' ''/foo/bar.d.ts'' = ''mylibfoo/bar''
   \<and> sourceModuleId_of CHR ''/'' ''mylib'' ''/'' ''/foo/bar.d.ts'' \<noteq> ''mylib/foo/bar''"
  by (simp add: posix_path_def posix_resolve_def posix_normalize_def normalizeArray_def
        indexOf_is_0_def sourceModuleId_of_def filenameToMid_def slice_def clamp_index_def)


section \<open>The message of the fatal error\<close>

lemma length_split_on: "length (split_on c s) = Suc (length (filter (\<lambda>x. x = c) s))"
  by (induction s) (auto split: list.splits)

lemma digit_char_not_newline: "digit_char d \<noteq> newline"
  by (simp add: digit_char_def newline_def)

lemma show_nat_no_newline: "newline \<notin> set (show_nat n)"
proof (induction n rule: show_nat.induct)
  case (1 n)
  show ?case
  proof (cases "n < 10")
    case True
    then show ?thesis using digit_char_not_newline[of n] by (subst show_nat.simps) auto
  next
    case False
    with 1 have "newline \<notin> set (show_nat (n div 10))" by blast
    with False show ?thesis using digit_char_not_newline[of "n mod 10"]
      by (subst show_nat.simps) auto
  qed
qed

lemma getError_forEach_plain:
  "getError_forEach message (map plain_diagnostic xs) = Inr (message @ concat (map plain_line xs))"
  by (induction xs arbitrary: message)
     (simp_all add: plain_diagnostic_def plain_line_def diagnostic_line_def)

lemma plain_line_newlines:
  assumes "newline \<notin> set (df_fileName (fst x))" "newline \<notin> set (snd (snd x))"
  shows "length (filter (\<lambda>c. c = newline) (plain_line x)) = 1"
  using assms show_nat_no_newline
  by (auto simp: plain_line_def filter_empty_conv newline_def)

lemma plain_lines_newlines:
  "\<forall>x \<in> set xs. newline \<notin> set (df_fileName (fst x)) \<and> newline \<notin> set (snd (snd x)) \<Longrightarrow>
     length (filter (\<lambda>c. c = newline) (concat (map plain_line xs))) = length xs"
proof (induction xs)
  case Nil
  then show ?case by simp
next
  case (Cons x xs)
  from Cons.prems have "length (filter (\<lambda>c. c = newline) (plain_line x)) = 1"
    by (simp add: plain_line_newlines)
  moreover from Cons have "length (filter (\<lambda>c. c = newline) (concat (map plain_line xs))) = length xs"
    by simp
  ultimately show ?case by simp
qed

lemma header_line_count:
  assumes "\<forall>x \<in> set xs. newline \<notin> set (df_fileName (fst x)) \<and> newline \<notin> set (snd (snd x))"
  shows "length (split_on newline
           (''Declaration generation failed'' @ concat (map plain_line xs))) = 1 + length xs"
proof -
  have header: "filter (\<lambda>c. c = newline) ''Declaration generation failed'' = []"
    by (simp add: newline_def)
  show ?thesis
    by (simp only: length_split_on filter_append length_append header
          plain_lines_newlines[OF assms]) simp
qed

text \<open>
  Claim C8, amended. Take any list of diagnostics that each have a file and a string
  as message text; \<open>xs\<close> lists, for each, the file, the code and the text. Then \<open>getError\<close>
  answers with an error named \<open>EmitterError\<close>, whose message is the header
  \<open>Declaration generation failed\<close> followed, for each diagnostic in order, by a line feed
  and \<open>file(line,col): error TS<code>: <message>\<close>, where line and column are the
  compiler's zero-based values plus one: the code is prefixed by \<open>TS\<close>. When no file
  name and no message holds a line feed, the message has exactly one line per diagnostic
  after the header line.
\<close>

theorem getError_message:
  "getError (map (\<lambda>(file, code, message).
                    \<lparr>diag_file = Some file, diag_code = code,
                     diag_messageText = MessageString message\<rparr>) xs) =
     Inr \<lparr>err_name = ''EmitterError'',
          err_message =
            ''Declaration generation failed'' @
            concat (map (\<lambda>(file, code, message).
                           [newline] @ df_fileName file @ ''('' @ show_nat (df_line file + 1) @
                           '','' @ show_nat (df_character file + 1) @ ''): error TS'' @
                           show_nat code @ '': '' @ message) xs)\<rparr>
   \<and> ((\<forall>(file, code, message) \<in> set xs.
          newline \<notin> set (df_fileName file) \<and> newline \<notin> set message) \<longrightarrow>
        length (split_on newline
          (''Declaration generation failed'' @
           concat (map (\<lambda>(file, code, message).
                          [newline] @ df_fileName file @ ''('' @ show_nat (df_line file + 1) @
                          '','' @ show_nat (df_character file + 1) @ ''): error TS'' @
                          show_nat code @ '': '' @ message) xs))) = 1 + length xs)"
proof -
  have d: "(\<lambda>(file, code, message).
              \<lparr>diag_file = Some file, diag_code = code,
               diag_messageText = MessageString message\<rparr>) = plain_diagnostic"
    by (rule ext) (simp add: plain_diagnostic_def split: prod.splits)
  have l: "(\<lambda>(file, code, message).
              [newline] @ df_fileName file @ ''('' @ show_nat (df_line file + 1) @
              '','' @ show_nat (df_character file + 1) @ ''): error TS'' @
              show_nat code @ '': '' @ message) = plain_line"
    by (rule ext) (simp add: plain_line_def split: prod.splits)
  have built: "getError (map plain_diagnostic xs) =
      Inr \<lparr>err_name = ''EmitterError'',
           err_message = ''Declaration generation failed'' @ concat (map plain_line xs)\<rparr>"
    by (simp add: getError_def getError_forEach_plain)
  have count: "(\<forall>(file, code, message) \<in> set xs.
          newline \<notin> set (df_fileName file) \<and> newline \<notin> set message) \<longrightarrow>
        length (split_on newline
          (''Declaration generation failed'' @ concat (map plain_line xs))) = 1 + length xs"
  proof
    assume "\<forall>(file, code, message) \<in> set xs.
          newline \<notin> set (df_fileName file) \<and> newline \<notin> set message"
    then have "\<forall>x \<in> set xs. newline \<notin> set (df_fileName (fst x)) \<and> newline \<notin> set (snd (snd x))"
      by auto
    then show "length (split_on newline
          (''Declaration generation failed'' @ concat (map plain_line xs))) = 1 + length xs"
      by (rule header_line_count)
  qed
  show ?thesis unfolding d l using built count by (rule conjI)
qed

text \<open>
  Claim C8 as stated fails in three ways. With the code after \<open>error T\<close> it fails for
  the diagnostic with code 2304: the message has \<open>error TS2304\<close>. For a diagnostic whose
  message is a chain, the line ends in \<open>[object Object]\<close>, not in the message. And for
  a diagnostic without a file no error is built: \<open>getError\<close> raises a \<open>TypeError\<close>.
\<close>

theorem getError_message_counterexample:
  "getError [example_diagnostic] \<noteq>
     Inr \<lparr>err_name = ''EmitterError'',
          err_message = ''Declaration generation failed'' @ [newline] @
                        ''/base/a.ts(1,12): error T2304: Cannot find name.''\<rparr>
   \<and> getError [chained_diagnostic] =
     Inr \<lparr>err_name = ''EmitterError'',
          err_message = ''Declaration generation failed'' @ [newline] @
                        ''/base/a.ts(3,1): error TS2322: [object Object]''\<rparr>
   \<and> getError [fileless_diagnostic] = Inl TypeError"
  by (simp add: getError_def diagnostic_line_def example_diagnostic_def chained_diagnostic_def
        fileless_diagnostic_def digit_char_def show_nat.simps newline_def)

theorem getError_message_witness:
  "example_diagnostic =
     (\<lambda>(file, code, message).
        \<lparr>diag_file = Some file, diag_code = code, diag_messageText = MessageString message\<rparr>)
       (\<lparr>df_fileName = ''/base/a.ts'', df_line = 0, df_character = 11\<rparr>, 2304,
        ''Cannot find name.'')
   \<and> newline \<notin> set ''/base/a.ts'' \<and> newline \<notin> set ''Cannot find name.''
   \<and> getError [example_diagnostic] =
       Inr \<lparr>err_name = ''EmitterError'',
            err_message = ''Declaration generation failed'' @ [newline] @
                          ''/base/a.ts(1,12): error TS2304: Cannot find name.''\<rparr>
   \<and> length (split_on newline
        (''Declaration generation failed'' @ [newline] @
         ''/base/a.ts(1,12): error TS2304: Cannot find name.'')) = 2"
proof -
  let ?x = "(\<lparr>df_fileName = ''/base/a.ts'', df_line = 0, df_character = 11\<rparr>, 2304::nat,
             ''Cannot find name.'')"
  have free: "\<forall>(file, code, message) \<in> set [?x].
       newline \<notin> set (df_fileName file) \<and> newline \<notin> set message"
    by (simp add: newline_def)
  from getError_message[of "[?x]"] free
  show ?thesis
    by (simp add: example_diagnostic_def digit_char_def show_nat.simps newline_def)
qed


section \<open>Resolution of the input paths\<close>

lemma posix_resolve_absolute:
  assumes "charAt0_is f CHR ''/''"
  shows "posix_resolve cwd [baseDir, f] = posix_resolve cwd [f]"
proof -
  from assms have "f \<noteq> []" by (cases f) auto
  then have "resolve_loop (rev [baseDir, f] @ [cwd]) [] False = resolve_loop (rev [f] @ [cwd]) [] False"
    using assms by simp
  then show ?thesis by (simp only: posix_resolve_def)
qed

text \<open>
  Claim C9, amended. Every input path is first resolved against the working directory
  alone. When that result begins with the base directory it is the path used; only
  otherwise the path is resolved relative to the base directory. On a POSIX host an
  absolute input path gives the same result either way.
\<close>

theorem getFilenames_resolution:
  "length (getFilenames P baseDir files) = length files
   \<and> (\<forall>i < length files.
         getFilenames P baseDir files ! i =
           (if prefix baseDir (path_resolve P [files ! i]) then path_resolve P [files ! i]
            else path_resolve P [baseDir, files ! i]))
   \<and> (charAt0_is f CHR ''/'' \<longrightarrow>
         getFilenames (posix_path cwd) baseDir [f] = [path_resolve (posix_path cwd) [baseDir, f]])"
  using posix_resolve_absolute[of f cwd baseDir]
  by (simp add: getFilenames_def indexOf_is_0_def Let_def posix_path_def)

text \<open>
  Claim C9 as stated fails: with the working directory \<open>/proj\<close> and the base directory
  \<open>/proj/src\<close>, the input \<open>src/a.ts\<close> becomes \<open>/proj/src/a.ts\<close>, while resolved
  relative to the base directory it is \<open>/proj/src/src/a.ts\<close>.
\<close>

theorem getFilenames_resolution_counterexample:
  "getFilenames (posix_path ''/proj'') ''/proj/src'' [''src/a.ts''] = [''/proj/src/a.ts'']
   \<and> path_resolve (posix_path ''/proj'') [''/proj/src'', ''src/a.ts''] = ''/proj/src/src/a.ts''
   \<and> getFilenames (posix_path ''/proj'') ''/proj/src'' [''src/a.ts''] \<noteq>
       map (\<lambda>filename. path_resolve (posix_path ''/proj'') [''/proj/src'', filename]) [''src/a.ts'']"
  by (simp add: getFilenames_def indexOf_is_0_def posix_path_def posix_resolve_def normalizeArray_def)

theorem getFilenames_resolution_witness:
  "(1::nat) < length [''src/a.ts'', ''b.ts'']
   \<and> \<not> prefix ''/proj/src'' (path_resolve (posix_path ''/proj'') [[''src/a.ts'', ''b.ts''] ! 1])
   \<and> getFilenames (posix_path ''/proj'') ''/proj/src'' [''src/a.ts'', ''b.ts''] ! 1 = ''/proj/src/b.ts''
   \<and> charAt0_is ''/proj/src/c.ts'' CHR ''/''
   \<and> getFilenames (posix_path ''/proj'') ''/proj/src'' [''/proj/src/c.ts''] = [''/proj/src/c.ts'']"
proof -
  have r1: "path_resolve (posix_path ''/proj'') [''b.ts''] = ''/proj/b.ts''"
    by (simp add: posix_path_def posix_resolve_def normalizeArray_def)
  have r2: "path_resolve (posix_path ''/proj'') [''/proj/src'', ''b.ts''] = ''/proj/src/b.ts''"
    by (simp add: posix_path_def posix_resolve_def normalizeArray_def)
  have r3: "path_resolve (posix_path ''/proj'') [''/proj/src'', ''/proj/src/c.ts''] = ''/proj/src/c.ts''"
    by (simp add: posix_path_def posix_resolve_def normalizeArray_def)
  from getFilenames_resolution[of "posix_path ''/proj''" "''/proj/src''" "[''src/a.ts'', ''b.ts'']"
         "''/proj/src/c.ts''" "''/proj''"] r1 r2 r3
  show ?thesis by simp
qed


section \<open>The substitutions of writeDeclaration\<close>

lemma posix_join_example: "posix_join [posix_dirname ''mylib/a/b'', ''./x''] = ''mylib/a/x''"
  by (simp add: posix_join_def posix_dirname_def posix_normalize_def normalizeArray_def)

lemma example_file_rewritten:
  "processTree example_file (declaration_replacer (posix_path cwd) ''mylib/a/b'') = example_rewritten"
  by (simp add: processTree_def example_file_def example_tree_def example_text_def
        example_rewritten_def declaration_replacer_def readThrough_def skip_def slice_def
        slice_from_def clamp_index_def posix_path_def posix_join_example)

text \<open>
  Claim C10. When the replacer answers for a node, the visit copies the source from
  the cursor up to the node's \<open>pos\<close>, which is where the trivia before the node begins,
  appends the replacement and moves the cursor to the node's \<open>end\<close>: the text from \<open>pos\<close>
  to \<open>end\<close>, trivia included, is what the replacement stands for. The replacement for a
  \<open>declare\<close> keyword is the empty string, so the trivia before the keyword goes with it;
  every other replacement of \<open>writeDeclaration\<close> begins with a blank.
\<close>

theorem replaced_span:
  "(replacer n = Some r \<longrightarrow>
      visit src replacer n (code, cursor) =
        (code @ take (pos n - cursor) (drop cursor src) @ r, endpos n))
   \<and> (kind n = DeclareKeyword \<longrightarrow> declaration_replacer P mid n = Some [])
   \<and> (kind n \<noteq> DeclareKeyword \<and> declaration_replacer P mid n = Some r \<longrightarrow>
        (\<exists>t. r = CHR '' '' # t))"
  by (auto simp: readThrough_def skip_def slice_nat declaration_replacer_def
      split: if_splits option.splits)


theorem replaced_span_witness:
  "declaration_replacer (posix_path ''/'') ''mylib/a/b'' declare_node = Some []
   \<and> kind declare_node = DeclareKeyword
   \<and> take 8 (drop 33 example_text) = '' declare''
   \<and> visit example_text (declaration_replacer (posix_path ''/'') ''mylib/a/b'') declare_node
         (''export'', 33) = (''export'', 41)
   \<and> kind reference_node \<noteq> DeclareKeyword
   \<and> declaration_replacer (posix_path ''/'') ''mylib/a/b'' reference_node =
         Some ('' require('' @ [quote] @ ''mylib/a/x'' @ [quote] @ '')'')
   \<and> (\<exists>t. '' require('' @ [quote] @ ''mylib/a/x'' @ [quote] @ '')'' = CHR '' '' # t)"
proof -
  let ?R = "declaration_replacer (posix_path ''/'') ''mylib/a/b''"
  have k: "kind declare_node = DeclareKeyword" by (simp add: declare_node_def)
  have k2: "kind reference_node \<noteq> DeclareKeyword" by (simp add: reference_node_def)
  have r2: "?R reference_node = Some ('' require('' @ [quote] @ ''mylib/a/x'' @ [quote] @ '')'')"
    by (simp add: declaration_replacer_def reference_node_def posix_path_def posix_join_example)
  have gone: "take 8 (drop 33 example_text) = '' declare''"
    by (simp add: example_text_def)
  from replaced_span[of ?R declare_node "[]" example_text "''export''" 33 "posix_path ''/''"
         "''mylib/a/b''"] k
  have a: "?R declare_node = Some []"
    and b: "visit example_text ?R declare_node (''export'', 33) = (''export'', 41)"
    by (simp_all add: declare_node_def)
  from replaced_span[of ?R reference_node "'' require('' @ [quote] @ ''mylib/a/x'' @ [quote] @ '')''"
         example_text "[]" 0 "posix_path ''/''" "''mylib/a/b''"] k2 r2
  have c: "\<exists>t. '' require('' @ [quote] @ ''mylib/a/x'' @ [quote] @ '')'' = CHR '' '' # t"
    by blast
  from a k gone b k2 r2 c show ?thesis by blast
qed

text \<open>
  Claim C6 on a Windows host. The module id of the file is written with slashes there
  too, but the replacement for the reference \<open>./x\<close> inside \<open>mylib/a/b\<close> is what the host's
  \<open>join\<close> answers, with backslashes: the rewritten file requires \<open>mylib\a\x\<close>, written
  with backslashes, and so does the path of an import declaration.
\<close>

theorem reference_on_windows_host:
  "sourceModuleId_of (path_sep windows_path) ''mylib'' (''C:'' @ [backslash] @ ''base'')
     ''C:/base/a/b.d.ts'' = ''mylib/a/b''
   \<and> declaration_replacer windows_path ''mylib/a/b'' reference_node =
       Some ('' require('' @ [quote] @ ''mylib'' @ [backslash] @ ''a'' @ [backslash] @ ''x'' @
             [quote] @ '')'')
   \<and> declaration_replacer windows_path ''mylib/a/b'' import_path_node =
       Some ('' '' @ [quote] @ ''mylib'' @ [backslash] @ ''a'' @ [backslash] @ ''x'' @ [quote])
   \<and> processTree example_file (declaration_replacer windows_path ''mylib/a/b'') =
       ''import a = require('' @ [quote] @ ''mylib'' @ [backslash] @ ''a'' @ [backslash] @ ''x'' @
       [quote] @ '');'' @ [newline] @ ''export var v: a.T;'' @ [newline]"
proof -
  have j: "backslash_join [posix_dirname ''mylib/a/b'', ''./x''] =
             ''mylib'' @ [backslash] @ ''a'' @ [backslash] @ ''x''"
    by (simp add: backslash_join_def posix_join_example)
  have m: "sourceModuleId_of (path_sep windows_path) ''mylib'' (''C:'' @ [backslash] @ ''base'')
             ''C:/base/a/b.d.ts'' = ''mylib/a/b''"
    by (simp add: windows_path_def sourceModuleId_of_def filenameToMid_def slice_def
          clamp_index_def backslash_def)
  have r: "declaration_replacer windows_path ''mylib/a/b'' reference_node =
       Some ('' require('' @ [quote] @ ''mylib'' @ [backslash] @ ''a'' @ [backslash] @ ''x'' @
             [quote] @ '')'')"
    by (simp add: declaration_replacer_def reference_node_def windows_path_def j)
  have i: "declaration_replacer windows_path ''mylib/a/b'' import_path_node =
       Some ('' '' @ [quote] @ ''mylib'' @ [backslash] @ ''a'' @ [backslash] @ ''x'' @ [quote])"
    by (simp add: declaration_replacer_def import_path_node_def windows_path_def j)
  have p: "processTree example_file (declaration_replacer windows_path ''mylib/a/b'') =
       ''import a = require('' @ [quote] @ ''mylib'' @ [backslash] @ ''a'' @ [backslash] @ ''x'' @
       [quote] @ '');'' @ [newline] @ ''export var v: a.T;'' @ [newline]"
    by (simp add: processTree_def example_file_def example_tree_def example_text_def
          declaration_replacer_def readThrough_def skip_def slice_def slice_from_def
          clamp_index_def windows_path_def j)
  from m r i p show ?thesis by simp
qed


section \<open>Whole runs\<close>

lemma posix_resolve_base: "posix_resolve ''/base'' [''/base''] = ''/base''"
  by (simp add: posix_resolve_def normalizeArray_def)

lemma example_mid: "sourceModuleId_of CHR ''/'' ''mylib'' ''/base'' ''/base/a/b.d.ts'' = ''mylib/a/b''"
  by (simp add: sourceModuleId_of_def filenameToMid_def slice_def clamp_index_def)

lemma literal_line_feed: "literal_source [newline]"
  by (simp add: literal_source_def regex_syntax_chars_def newline_def backslash_def)

lemma example_indented:
  "indent_lines engine [newline] [tab] example_rewritten =
     ''import a = require('' @ [quote] @ ''mylib/a/x'' @ [quote] @ '');'' @ [newline, tab] @
     ''export var v: a.T;'' @ [newline]"
proof -
  have d: "CHR ''$'' \<notin> set [tab]" by (simp add: tab_def)
  have "indent_lines engine [newline] [tab] example_rewritten =
          replace_lineStarts [newline] (''$&'' @ [tab]) [] example_rewritten"
    using literal_line_feed by (simp only: indent_lines_def if_True)
  also have "\<dots> = spec_indent [newline] [tab] example_rewritten"
    by (rule replace_lineStarts_spec[OF d])
  finally show ?thesis
    by (simp add: example_rewritten_def literal_lineStart_at_def newline_def quote_def)
qed

lemma example_written:
  "writeDeclaration dts_host
     \<lparr>set_baseDir = ''/base'', set_eol = [newline], set_indent = [tab], set_name = ''mylib''\<rparr>
     example_file st =
   st\<lparr>writes := writes st @
      [''declare module '' @ [quote] @ ''mylib/a/b'' @ [quote] @ '' {'' @ [newline, tab],
       ''import a = require('' @ [quote] @ ''mylib/a/x'' @ [quote] @ '');'' @ [newline, tab] @
       ''export var v: a.T;'' @ [newline],
       [newline] @ ''}'' @ [newline]]\<rparr>"
proof -
  have f: "fileName example_file = ''/base/a/b.d.ts''" "externalModuleIndicator example_file"
    by (simp_all add: example_file_def)
  have s: "pathUtil dts_host = posix_path ''/base''" "path_sep (posix_path ''/base'') = CHR ''/''"
    by (simp_all add: dts_host_def posix_path_def)
  show ?thesis
    by (simp add: writeDeclaration_def f s example_mid example_file_rewritten example_indented
          output_write_def)
qed

lemma dts_settings:
  "settings_of dts_host dts_options =
     \<lparr>set_baseDir = ''/base'', set_eol = [newline], set_indent = [tab], set_name = ''mylib''\<rparr>"
  by (simp add: settings_of_def dts_host_def dts_options_def posix_path_def posix_resolve_base)

lemma example_in_base:
  "indexOf_is_0 (posix_normalize ''/base/a/b.d.ts'') ''/base''"
  by (simp add: indexOf_is_0_def posix_normalize_def normalizeArray_def)

lemma example_is_dts: "slice_from ''/base/a/b.d.ts'' (- 5) = ''.d.ts''"
  by (simp add: slice_from_def slice_def clamp_index_def)

lemma dts_run:
  "generate dts_host dts_options =
     \<lparr>writes =
        [''declare module '' @ [quote] @ ''mylib/a/b'' @ [quote] @ '' {'' @ [newline, tab],
         ''import a = require('' @ [quote] @ ''mylib/a/x'' @ [quote] @ '');'' @ [newline, tab] @
         ''export var v: a.T;'' @ [newline],
         [newline] @ ''}'' @ [newline]],
      messages = [''Processing /base/a/b.d.ts''], rejected = None, ended = True,
      thrown = None\<rparr>"
proof -
  have P: "pathUtil dts_host = posix_path ''/base''" by (simp add: dts_host_def)
  have n: "path_normalize (posix_path ''/base'') = posix_normalize" by (simp add: posix_path_def)
  have f: "fileName example_file = ''/base/a/b.d.ts''" by (simp add: example_file_def)
  have step: "process_sourceFile dts_host
       \<lparr>set_baseDir = ''/base'', set_eol = [newline], set_indent = [tab], set_name = ''mylib''\<rparr>
       dts_program [] example_file initial_run =
     (writeDeclaration dts_host
        \<lparr>set_baseDir = ''/base'', set_eol = [newline], set_indent = [tab], set_name = ''mylib''\<rparr>
        example_file (sendMessage ''Processing /base/a/b.d.ts'' initial_run), False)"
    using example_in_base example_is_dts
    by (simp add: process_sourceFile_def P n f)
  have files: "bundle_files dts_host dts_options =
      writeDeclaration dts_host
        \<lparr>set_baseDir = ''/base'', set_eol = [newline], set_indent = [tab], set_name = ''mylib''\<rparr>
        example_file (sendMessage ''Processing /base/a/b.d.ts'' initial_run)"
    using step
    by (simp add: bundle_files_def dts_settings Let_def)
       (simp add: dts_host_def dts_options_def dts_program_def)
  have c: "nonEmptyLineStart_compiles dts_host [newline]"
    by (simp add: nonEmptyLineStart_compiles_def literal_line_feed)
  show ?thesis
    by (simp add: generate_def dts_settings c files example_written write_main_def
          sendMessage_def initial_run_def)
       (simp add: dts_options_def)
qed

text \<open>
  Claim C1, amended. A source file that lies under the base directory, is not excluded
  and has a name ending in \<open>.d.ts\<close> is handed to \<open>writeDeclaration\<close> without being
  emitted: the iteration goes on and nothing is rejected. When the file carries no
  external-module indicator, its text is written unchanged as one write. When it
  carries the indicator, it is written like an emitted declaration file: the opening
  of its module block, its rewritten and indented text, and the closing.
\<close>

theorem declaration_file_written:
  assumes "indexOf_is_0 (path_normalize (pathUtil H) (fileName sf)) (set_baseDir S)"
    and "fileName sf \<notin> set excludesMap"
    and "slice_from (fileName sf) (- 5) = ''.d.ts''"
  shows "snd (process_sourceFile H S prog excludesMap sf st) = False
   \<and> rejected (fst (process_sourceFile H S prog excludesMap sf st)) = rejected st
   \<and> writes (fst (process_sourceFile H S prog excludesMap sf st)) =
       writes st @
       (if externalModuleIndicator sf then
          [''declare module '' @ [quote] @
             sourceModuleId_of (path_sep (pathUtil H)) (set_name S) (set_baseDir S) (fileName sf) @
             [quote] @ '' {'' @ set_eol S @ set_indent S,
           indent_lines (regexp_replace H) (set_eol S) (set_indent S)
             (processTree sf
                (declaration_replacer (pathUtil H)
                   (sourceModuleId_of (path_sep (pathUtil H)) (set_name S) (set_baseDir S)
                      (fileName sf)))),
           set_eol S @ ''}'' @ set_eol S]
        else [fileText sf])"
  using assms
  by (simp add: process_sourceFile_def writeDeclaration_def output_write_def sendMessage_def Let_def)

text \<open>
  Claim C1 as stated fails for the example file, named \<open>/base/a/b.d.ts\<close>, which carries
  the indicator: the run writes a module block, and the file's text is not among the
  writes.
\<close>

theorem declaration_file_written_counterexample:
  "slice_from (fileName example_file) (- 5) = ''.d.ts''
   \<and> getSourceFiles (createProgram dts_host
         (getFilenames (pathUtil dts_host) ''/base'' (opt_files dts_options))) = [example_file]
   \<and> writes (generate dts_host dts_options) =
        [''declare module '' @ [quote] @ ''mylib/a/b'' @ [quote] @ '' {'' @ [newline, tab],
         ''import a = require('' @ [quote] @ ''mylib/a/x'' @ [quote] @ '');'' @ [newline, tab] @
         ''export var v: a.T;'' @ [newline],
         [newline] @ ''}'' @ [newline]]
   \<and> fileText example_file \<notin> set (writes (generate dts_host dts_options))
   \<and> concat (writes (generate dts_host dts_options)) \<noteq> fileText example_file"
proof -
  have a: "slice_from (fileName example_file) (- 5) = ''.d.ts''"
    by (simp add: example_file_def example_is_dts)
  have b: "getSourceFiles (createProgram dts_host
         (getFilenames (pathUtil dts_host) ''/base'' (opt_files dts_options))) = [example_file]"
    by (simp add: dts_host_def dts_program_def)
  have c: "fileText example_file = example_text" by (simp add: example_file_def)
  show ?thesis
    unfolding dts_run c using a b
    by (simp add: example_text_def quote_def newline_def tab_def)
qed

theorem declaration_file_written_witness:
  "indexOf_is_0 (path_normalize (pathUtil dts_host) (fileName example_file)) ''/base''
   \<and> fileName example_file \<notin> set []
   \<and> slice_from (fileName example_file) (- 5) = ''.d.ts''
   \<and> externalModuleIndicator example_file
   \<and> writes (fst (process_sourceFile dts_host
         \<lparr>set_baseDir = ''/base'', set_eol = [newline], set_indent = [tab], set_name = ''mylib''\<rparr>
         dts_program [] example_file initial_run)) =
        [''declare module '' @ [quote] @ ''mylib/a/b'' @ [quote] @ '' {'' @ [newline, tab],
         ''import a = require('' @ [quote] @ ''mylib/a/x'' @ [quote] @ '');'' @ [newline, tab] @
         ''export var v: a.T;'' @ [newline],
         [newline] @ ''}'' @ [newline]]
   \<and> \<not> externalModuleIndicator (example_file\<lparr>externalModuleIndicator := False\<rparr>)
   \<and> writes (fst (process_sourceFile dts_host
         \<lparr>set_baseDir = ''/base'', set_eol = [newline], set_indent = [tab], set_name = ''mylib''\<rparr>
         dts_program [] (example_file\<lparr>externalModuleIndicator := False\<rparr>) initial_run)) =
        [fileText example_file]"
proof -
  let ?S = "\<lparr>set_baseDir = ''/base'', set_eol = [newline], set_indent = [tab], set_name = ''mylib''\<rparr>"
  have P: "pathUtil dts_host = posix_path ''/base''" by (simp add: dts_host_def)
  have f: "fileName example_file = ''/base/a/b.d.ts''" by (simp add: example_file_def)
  have a: "indexOf_is_0 (path_normalize (pathUtil dts_host) (fileName example_file)) (set_baseDir ?S)"
    using example_in_base by (simp add: P f posix_path_def)
  have b: "fileName example_file \<notin> set []" by simp
  have c: "slice_from (fileName example_file) (- 5) = ''.d.ts''"
    by (simp add: f example_is_dts)
  have i: "externalModuleIndicator example_file" by (simp add: example_file_def)
  have w: "writes initial_run = []" by (simp add: initial_run_def)
  have s: "path_sep (posix_path ''/base'') = CHR ''/''" by (simp add: posix_path_def)
  from declaration_file_written[OF a b c, of dts_program initial_run] i
  have one: "writes (fst (process_sourceFile dts_host ?S dts_program [] example_file initial_run)) =
        [''declare module '' @ [quote] @ ''mylib/a/b'' @ [quote] @ '' {'' @ [newline, tab],
         ''import a = require('' @ [quote] @ ''mylib/a/x'' @ [quote] @ '');'' @ [newline, tab] @
         ''export var v: a.T;'' @ [newline],
         [newline] @ ''}'' @ [newline]]"
    by (simp add: w P s f example_mid example_file_rewritten example_indented)
  let ?g = "example_file\<lparr>externalModuleIndicator := False\<rparr>"
  have a': "indexOf_is_0 (path_normalize (pathUtil dts_host) (fileName ?g)) (set_baseDir ?S)"
    using a by simp
  have b': "fileName ?g \<notin> set []" by simp
  have c': "slice_from (fileName ?g) (- 5) = ''.d.ts''" using c by simp
  from declaration_file_written[OF a' b' c', of dts_program initial_run]
  have two: "writes (fst (process_sourceFile dts_host ?S dts_program [] ?g initial_run)) =
        [fileText example_file]"
    by (simp add: w)
  from a b c i one two show ?thesis by simp
qed

text \<open>
  Claim C4, amended. When the main module is configured and not empty, and no
  exception cuts the run short, the writes of the run end with the four writes of the
  alias block, after everything written for the files; the import target is the
  configured main module as it was given. For the main module \<open>pkg/a\<close> and the namespace
  \<open>pkg\<close> the block requires \<open>pkg/a\<close>.
\<close>

theorem main_alias_block:
  assumes "opt_main opts = Some m" and "m \<noteq> []" and "thrown (generate H opts) = None"
  shows "writes (generate H opts) =
           writes (bundle_files H opts) @
           [''declare module '' @ [quote] @ opt_name opts @ [quote] @ '' {'' @
              set_eol (settings_of H opts) @ set_indent (settings_of H opts),
            ''import main = require('' @ [quote] @ m @ [quote] @ '');'' @
              set_eol (settings_of H opts) @ set_indent (settings_of H opts),
            ''export = main;'' @ set_eol (settings_of H opts),
            ''}'' @ set_eol (settings_of H opts)]"
proof -
  from assms(3) have c: "nonEmptyLineStart_compiles H (set_eol (settings_of H opts))"
    by (auto simp: generate_def initial_run_def split: if_splits)
  have t: "thrown (bundle_files H opts) = None"
  proof (cases "thrown (bundle_files H opts)")
    case None
    then show ?thesis .
  next
    case (Some e)
    then have "thrown (reject (Inl e) (bundle_files H opts)) = Some e"
      by (simp add: reject_def split: option.splits)
    with assms(3) c Some show ?thesis by (simp add: generate_def Let_def)
  qed
  from assms(1,2) c t show ?thesis
    by (simp add: generate_def write_main_def output_write_def sendMessage_def Let_def)
qed

lemma pkg_settings:
  "settings_of empty_host (pkg_options m) =
     \<lparr>set_baseDir = ''/base'', set_eol = [newline], set_indent = [tab], set_name = ''pkg''\<rparr>"
  by (simp add: settings_of_def empty_host_def pkg_options_def posix_path_def posix_resolve_base)

lemma pkg_files: "bundle_files empty_host (pkg_options m) = initial_run"
  by (simp add: bundle_files_def pkg_settings Let_def)
     (simp add: empty_host_def pkg_options_def empty_program_def)

lemma pkg_compiles: "nonEmptyLineStart_compiles empty_host [newline]"
  by (simp add: nonEmptyLineStart_compiles_def literal_line_feed)

lemma failing_in_base: "indexOf_is_0 (posix_normalize ''/base/a.ts'') ''/base''"
  by (simp add: indexOf_is_0_def posix_normalize_def normalizeArray_def)

lemma failing_not_dts: "slice_from ''/base/a.ts'' (- 5) \<noteq> ''.d.ts''"
  by (simp add: slice_from_def slice_def clamp_index_def)

lemma fileless_settings:
  "settings_of fileless_host failing_options =
     \<lparr>set_baseDir = ''/base'', set_eol = [newline], set_indent = [tab], set_name = ''mylib''\<rparr>"
  by (simp add: settings_of_def fileless_host_def failing_options_def posix_path_def
        posix_resolve_base)

lemma fileless_files:
  "bundle_files fileless_host failing_options =
     \<lparr>writes = [], messages = [''Processing /base/a.ts''], rejected = None, ended = False,
      thrown = Some TypeError\<rparr>"
proof -
  let ?S = "\<lparr>set_baseDir = ''/base'', set_eol = [newline], set_indent = [tab], set_name = ''mylib''\<rparr>"
  have P: "pathUtil fileless_host = posix_path ''/base''" by (simp add: fileless_host_def)
  have n: "path_normalize (posix_path ''/base'') = posix_normalize" by (simp add: posix_path_def)
  have f: "fileName failing_file = ''/base/a.ts''" by (simp add: failing_file_def)
  have e: "emit fileless_program failing_file =
             \<lparr>emitSkipped = False, diagnostics = [fileless_diagnostic], emitted = []\<rparr>"
    by (simp add: fileless_program_def)
  have g: "getError [fileless_diagnostic] = Inl TypeError"
    by (simp add: getError_def fileless_diagnostic_def)
  have d: "getSemanticDiagnostics fileless_program failing_file = []"
    "getSyntacticDiagnostics fileless_program failing_file = []"
    "getDeclarationDiagnostics fileless_program failing_file = []"
    by (simp_all add: fileless_program_def no_diagnostics_def)
  have step: "process_sourceFile fileless_host ?S fileless_program [] failing_file initial_run =
     (\<lparr>writes = [], messages = [''Processing /base/a.ts''], rejected = None, ended = False,
       thrown = Some TypeError\<rparr>, True)"
    using failing_in_base failing_not_dts
    by (simp add: process_sourceFile_def P n f e d g sendMessage_def initial_run_def)
  show ?thesis
    using step
    by (simp add: bundle_files_def fileless_settings Let_def)
       (simp add: fileless_host_def failing_options_def fileless_program_def)
qed

text \<open>
  Claim C4 as stated fails: for the main module \<open>./a\<close> and the namespace \<open>pkg\<close> the
  block requires \<open>./a\<close>, not \<open>pkg/a\<close>. And with a main module configured no block is
  written at all where an exception cuts the run short: the compiler reports a
  diagnostic without a file for the first source file, \<open>getError\<close> raises a \<open>TypeError\<close>,
  and the promise is rejected with it before anything is written.
\<close>

theorem main_alias_block_counterexample:
  "concat (writes (generate empty_host (pkg_options ''./a''))) =
     ''declare module '' @ [quote] @ ''pkg'' @ [quote] @ '' {'' @ [newline, tab] @
     ''import main = require('' @ [quote] @ ''./a'' @ [quote] @ '');'' @ [newline, tab] @
     ''export = main;'' @ [newline] @ ''}'' @ [newline]
   \<and> concat (writes (generate empty_host (pkg_options ''./a''))) \<noteq>
     ''declare module '' @ [quote] @ ''pkg'' @ [quote] @ '' {'' @ [newline, tab] @
     ''import main = require('' @ [quote] @ ''pkg/a'' @ [quote] @ '');'' @ [newline, tab] @
     ''export = main;'' @ [newline] @ ''}'' @ [newline]
   \<and> opt_main failing_options = Some ''mylib/a''
   \<and> generate fileless_host failing_options =
     \<lparr>writes = [], messages = [''Processing /base/a.ts''], rejected = Some (Inl TypeError),
      ended = False, thrown = Some TypeError\<rparr>"
proof -
  have o: "opt_main (pkg_options ''./a'') = Some ''./a''" "opt_name (pkg_options ''./a'') = ''pkg''"
    by (simp_all add: pkg_options_def)
  have a: "concat (writes (generate empty_host (pkg_options ''./a''))) =
     ''declare module '' @ [quote] @ ''pkg'' @ [quote] @ '' {'' @ [newline, tab] @
     ''import main = require('' @ [quote] @ ''./a'' @ [quote] @ '');'' @ [newline, tab] @
     ''export = main;'' @ [newline] @ ''}'' @ [newline]"
    by (simp add: generate_def write_main_def o pkg_files pkg_settings pkg_compiles
          output_write_def sendMessage_def initial_run_def)
  have b: "''declare module '' @ [quote] @ ''pkg'' @ [quote] @ '' {'' @ [newline, tab] @
     ''import main = require('' @ [quote] @ ''./a'' @ [quote] @ '');'' @ [newline, tab] @
     ''export = main;'' @ [newline] @ ''}'' @ [newline] \<noteq>
     ''declare module '' @ [quote] @ ''pkg'' @ [quote] @ '' {'' @ [newline, tab] @
     ''import main = require('' @ [quote] @ ''pkg/a'' @ [quote] @ '');'' @ [newline, tab] @
     ''export = main;'' @ [newline] @ ''}'' @ [newline]"
    by simp
  have m: "opt_main failing_options = Some ''mylib/a''" by (simp add: failing_options_def)
  have c: "nonEmptyLineStart_compiles fileless_host [newline]"
    by (simp add: nonEmptyLineStart_compiles_def literal_line_feed)
  have r: "generate fileless_host failing_options =
     \<lparr>writes = [], messages = [''Processing /base/a.ts''], rejected = Some (Inl TypeError),
      ended = False, thrown = Some TypeError\<rparr>"
    by (simp add: generate_def fileless_settings c fileless_files reject_def)
  from a b m r show ?thesis by simp
qed

theorem main_alias_block_witness:
  "opt_main (pkg_options ''pkg/a'') = Some ''pkg/a'' \<and> ''pkg/a'' \<noteq> []
   \<and> thrown (generate empty_host (pkg_options ''pkg/a'')) = None
   \<and> concat (writes (generate empty_host (pkg_options ''pkg/a''))) =
     ''declare module '' @ [quote] @ ''pkg'' @ [quote] @ '' {'' @ [newline, tab] @
     ''import main = require('' @ [quote] @ ''pkg/a'' @ [quote] @ '');'' @ [newline, tab] @
     ''export = main;'' @ [newline] @ ''}'' @ [newline]"
proof -
  have o: "opt_main (pkg_options ''pkg/a'') = Some ''pkg/a''" by (simp add: pkg_options_def)
  have n: "''pkg/a'' \<noteq> []" by simp
  have name: "opt_name (pkg_options ''pkg/a'') = ''pkg''" by (simp add: pkg_options_def)
  have t: "thrown (generate empty_host (pkg_options ''pkg/a'')) = None"
    by (simp add: generate_def pkg_settings pkg_compiles pkg_files o write_main_def
          output_write_def sendMessage_def initial_run_def)
  from main_alias_block[OF o n t] o t
  show ?thesis by (simp add: pkg_files pkg_settings name initial_run_def)
qed

lemma failing_settings:
  "settings_of failing_host failing_options =
     \<lparr>set_baseDir = ''/base'', set_eol = [newline], set_indent = [tab], set_name = ''mylib''\<rparr>"
  by (simp add: settings_of_def failing_host_def failing_options_def posix_path_def posix_resolve_base)

lemma failing_files:
  "bundle_files failing_host failing_options =
     \<lparr>writes = [], messages = [''Processing /base/a.ts''],
      rejected = Some (getError [example_diagnostic]), ended = False, thrown = None\<rparr>"
proof -
  let ?S = "\<lparr>set_baseDir = ''/base'', set_eol = [newline], set_indent = [tab], set_name = ''mylib''\<rparr>"
  have P: "pathUtil failing_host = posix_path ''/base''" by (simp add: failing_host_def)
  have n: "path_normalize (posix_path ''/base'') = posix_normalize" by (simp add: posix_path_def)
  have f: "fileName failing_file = ''/base/a.ts''" by (simp add: failing_file_def)
  have e: "emit failing_program failing_file =
             \<lparr>emitSkipped = False, diagnostics = [example_diagnostic], emitted = []\<rparr>"
    by (simp add: failing_program_def)
  have g: "getError [example_diagnostic] =
             Inr \<lparr>err_name = ''EmitterError'',
                  err_message = ''Declaration generation failed'' @
                                diagnostic_line \<lparr>df_fileName = ''/base/a.ts'', df_line = 0,
                                                  df_character = 11\<rparr> example_diagnostic\<rparr>"
    by (simp add: getError_def example_diagnostic_def)
  have d: "getSemanticDiagnostics failing_program failing_file = []"
    "getSyntacticDiagnostics failing_program failing_file = []"
    "getDeclarationDiagnostics failing_program failing_file = []"
    by (simp_all add: failing_program_def no_diagnostics_def)
  have step: "process_sourceFile failing_host ?S failing_program [] failing_file initial_run =
     (\<lparr>writes = [], messages = [''Processing /base/a.ts''],
       rejected = Some (getError [example_diagnostic]), ended = False, thrown = None\<rparr>, True)"
    using failing_in_base failing_not_dts
    by (simp add: process_sourceFile_def P n f e d g reject_def sendMessage_def initial_run_def)
  show ?thesis
    using step
    by (simp add: bundle_files_def failing_settings Let_def)
       (simp add: failing_host_def failing_options_def failing_program_def)
qed

text \<open>
  Claim C3 at a failing input: a source file with a diagnostic, a declaration file
  after it, and a main module configured. The iteration rejects the promise with the
  fatal error at the first file and stops: the second file is not processed and nothing
  has been written. The run then still writes the four strings of the alias block.
\<close>

theorem writes_after_failure:
  "getSourceFiles failing_program = [failing_file, example_file]
   \<and> rejected (bundle_files failing_host failing_options) = Some (getError [example_diagnostic])
   \<and> messages (bundle_files failing_host failing_options) = [''Processing /base/a.ts'']
   \<and> writes (bundle_files failing_host failing_options) = []
   \<and> rejected (generate failing_host failing_options) = Some (getError [example_diagnostic])
   \<and> writes (generate failing_host failing_options) =
        [''declare module '' @ [quote] @ ''mylib'' @ [quote] @ '' {'' @ [newline, tab],
         ''import main = require('' @ [quote] @ ''mylib/a'' @ [quote] @ '');'' @ [newline, tab],
         ''export = main;'' @ [newline],
         ''}'' @ [newline]]"
proof -
  have o: "opt_main failing_options = Some ''mylib/a''" "opt_name failing_options = ''mylib''"
    by (simp_all add: failing_options_def)
  have p: "getSourceFiles failing_program = [failing_file, example_file]"
    by (simp add: failing_program_def)
  have c: "nonEmptyLineStart_compiles failing_host [newline]"
    by (simp add: nonEmptyLineStart_compiles_def literal_line_feed)
  show ?thesis
    by (simp add: generate_def write_main_def o p c failing_files failing_settings
          output_write_def sendMessage_def)
qed

end
